theory Spec2Isabelle
  imports Complex_Main "HOL-Library.Log_Nat"
begin

text \<open>
  A model of the order and payment routes of the SEO order server: the handlers of
  \<open>POST /create\<close>, \<open>POST /capture-payment\<close>, \<open>POST /webhook/paypal\<close>,
  \<open>POST /test-order\<close> and \<open>POST /create-payment-intent\<close> (the order router,
  src/unnamed/part_002), of \<open>PUT /orders/:id/status\<close> (the admin router in
  src/middleware/validation.js), the validators of src/middleware/validation.js and
  src/unnamed/part_001, the transaction helpers of config/database.js
  (src/unnamed/part_000), \<open>extractPaymentInfo\<close> of src/services/paypal.js, and the tables,
  sequences and triggers of src/database/schema.sql that these handlers touch.

  A handler is a function from the request and the database to an \<open>outcome\<close>. Calls
  that leave the process (the PayPal capture, the Stripe payment intent) and the library
  functions that the repository does not contain (\<open>Number.prototype.toString\<close>, and
  \<open>isEmail\<close>, \<open>normalizeEmail\<close>, \<open>isURL\<close> of validator.js) are parameters of the
  handler; e-mails and log lines, which change no table, are left out. Requests run one
  at a time. \<open>POST /create\<close> and \<open>PUT /orders/:id/status\<close> are modelled with their
  validator chains; the other handlers are modelled from their first line, on a body
  that the validator chain of the route has let through.

  A statement that PostgreSQL refuses throws in the handler, and the model says when: a
  text parameter with a NUL character, an integer outside \<open>INTEGER\<close>, a string too long
  for its \<open>VARCHAR(n)\<close> column, a decimal outside \<open>DECIMAL(10,2)\<close>, a text that is no
  \<open>jsonb\<close>, a sequence at its maximum, and a duplicate for a primary key or a \<open>UNIQUE\<close>
  column. The rows that a table already holds are taken to satisfy the types of their
  columns, with no \<open>NaN\<close> in the money columns of the catalog and of \<open>orders\<close>.
\<close>

section \<open>The schema (database/schema.sql)\<close>

text \<open>
  The three enum types of the schema, and one record per table row. Only the columns the
  routes below read or write are kept; the serial ids of \<open>payments\<close> and
  \<open>order_status_history\<close> (whose sequences are taken to be below their maximum) and
  all timestamp columns are left out, and a table is the list of its rows in insertion
  order. Money columns are \<open>DECIMAL(10,2)\<close>: they are held
  as a whole number of hundredths. \<open>payments.amount\<close> can also hold PostgreSQL's numeric
  \<open>NaN\<close>, which \<open>POST /capture-payment\<close> can write.
\<close>

datatype order_status = Pending | Confirmed | In_progress | Completed | Cancelled

datatype payment_status = Pay_pending | Paid | Failed | Refunded

datatype payment_method = Paypal | Stripe | Bank_transfer

type_synonym cents = int

datatype numeric = Numeric cents | Numeric_NaN

text \<open>
  A JSON value, as JavaScript holds it after \<open>JSON.parse\<close> and as a \<open>JSONB\<close> column
  stores it. The members of an object are listed in order: the order of insertion for a
  JavaScript object (whose member names are distinct), the order of the keys for a
  stored \<open>jsonb\<close> value. A number is the rational it denotes.
\<close>

datatype json =
    JNull
  | JBool bool
  | JNumber rat
  | JString string
  | JArray "json list"
  | JObject "(string \<times> json) list"

record service =
  s_id :: string
  s_name :: string
  s_is_active :: bool

record service_tier =
  st_id :: string
  st_service_id :: string
  st_name :: string
  st_price :: cents
  st_delivery_days :: int
  st_is_active :: bool

record customer =
  c_id :: nat
  c_name :: string
  c_email :: string
  c_website :: string
  c_phone :: "string option"

record order_row =
  o_id :: nat
  o_tracking_id :: string
  o_customer_id :: nat
  o_service_tier_id :: string
  o_service_name :: string
  o_service_tier_name :: string
  o_service_price :: cents
  o_delivery_days :: int
  o_keywords :: string
  o_quantity :: int
  o_total_amount :: cents
  o_status :: order_status
  o_payment_status :: payment_status

record payment =
  p_order_id :: nat
  p_payment_method :: payment_method
  p_payment_id :: "string option"
  p_payer_id :: "string option"
  p_amount :: numeric
  p_currency :: "string option"
  p_status :: payment_status
  p_gateway_response :: "json option"

record status_history =
  h_order_id :: nat
  h_status :: order_status
  h_notes :: "string option"
  h_changed_by :: "nat option"

text \<open>
  The database: the tables, and the two sequences whose values the model shows
  (\<open>orders_id_seq\<close> feeds both \<open>orders.id\<close> and the tracking code). A sequence holds
  the value it returned last.
\<close>

record database =
  services :: "service list"
  service_tiers :: "service_tier list"
  customers :: "customer list"
  orders :: "order_row list"
  payments :: "payment list"
  order_status_history :: "status_history list"
  orders_id_seq :: nat
  customers_id_seq :: nat

section \<open>JavaScript numbers\<close>

text \<open>
  The routes compute with JavaScript numbers, that is IEEE 754 binary64. A finite double
  is modelled by the rational it denotes, and \<open>fl\<close> rounds a rational to the nearest
  double, ties to even (53-bit significand). The exponent range is not bounded: \<open>fl\<close>
  agrees with binary64 wherever neither overflow nor a subnormal result occurs, which
  covers every amount a \<open>DECIMAL(10,2)\<close> column can hold and their differences and
  products below. A number is a finite double or \<open>NaN\<close>; the infinities are left out.
\<close>

datatype number = Number rat | NaN

definition pow2 :: "int \<Rightarrow> rat" where
  "pow2 k = (if 0 \<le> k then 2 ^ nat k else 1 / 2 ^ nat (- k))"

definition exponent :: "rat \<Rightarrow> int" where
  \<comment> \<open>for \<open>0 < x\<close>: the \<open>e\<close> with \<open>2\<^sup>e \<le> x < 2\<^sup>e\<^sup>+\<^sup>1\<close>\<close>
  "exponent x =
     (let (p, q) = quotient_of x;
          e0 = bitlen p - bitlen q
      in if pow2 e0 \<le> x then e0 else e0 - 1)"

definition round_ties_even :: "rat \<Rightarrow> int" where
  "round_ties_even x =
     (let f = \<lfloor>x\<rfloor>; r = x - of_int f
      in if r < 1 / 2 then f
         else if 1 / 2 < r then f + 1
         else if even f then f else f + 1)"

definition fl :: "rat \<Rightarrow> rat" where
  "fl x =
     (if x = 0 then 0
      else let ulp = pow2 (exponent \<bar>x\<bar> - 52)
           in sgn x * of_int (round_ties_even (\<bar>x\<bar> / ulp)) * ulp)"

text \<open>
  \<open>parseFloat\<close> of the text of a \<open>DECIMAL(10,2)\<close> value (\<open>"450.00"\<close>), given in
  hundredths; the same conversion happens when \<open>*\<close> coerces the price string
  (\<open>serviceTier.price * quantity\<close>).
\<close>

definition parseFloat :: "cents \<Rightarrow> rat" where
  "parseFloat c = fl (of_int c / 100)"

text \<open>
  \<open>parseFloat\<close> of a string that a gateway sends as an amount. Of such a string the
  model keeps what \<open>parseFloat\<close> reads in it: the decimal it starts with, or that it
  starts with no number. A property that is missing (\<open>undefined\<close>) or the empty string
  is \<open>None\<close>; both are falsy, and \<open>parseFloat\<close> of either is \<open>NaN\<close>.
\<close>

datatype amount_text = Decimal rat | Not_a_number

definition parseFloat_amount :: "amount_text option \<Rightarrow> number" where
  "parseFloat_amount v = (case v of Some (Decimal x) \<Rightarrow> Number (fl x) | _ \<Rightarrow> NaN)"

text \<open>
  A number bound to a query parameter travels as the text \<open>Number.prototype.toString\<close>
  gives, and PostgreSQL rounds that decimal to the column's scale, half away from zero;
  a value of \<open>10\<^sup>8\<close> or more is refused (numeric field overflow). The decimal that
  \<open>toString\<close> yields for a double is a parameter \<open>toString\<close> of the routes; ECMAScript
  promises of it that it reads back as the same double, which is \<open>reads_back\<close>. The
  text of \<open>NaN\<close> is \<open>NaN\<close>, which a numeric column of any precision accepts.
\<close>

definition numeric_10_2 :: "rat \<Rightarrow> cents option" where
  "numeric_10_2 x =
     (let n = (if 0 \<le> x then \<lfloor>x * 100 + 1 / 2\<rfloor> else - \<lfloor>- x * 100 + 1 / 2\<rfloor>)
      in if \<bar>n\<bar> < 10 ^ 10 then Some n else None)"

definition reads_back :: "(rat \<Rightarrow> rat) \<Rightarrow> rat \<Rightarrow> bool" where
  "reads_back toString d = (fl (toString d) = d)"

definition numeric_param :: "(rat \<Rightarrow> rat) \<Rightarrow> number \<Rightarrow> numeric option" where
  "numeric_param toString n =
     (case n of
        NaN \<Rightarrow> Some Numeric_NaN
      | Number d \<Rightarrow> map_option Numeric (numeric_10_2 (toString d)))"

section \<open>Query parameters\<close>

text \<open>
  What PostgreSQL accepts for a parameter. A text must not contain the NUL character. A
  value for an \<open>INTEGER\<close> column or comparison must lie in the range of \<open>int4\<close>. A
  string assigned to a \<open>VARCHAR(n)\<close> column may be longer than \<open>n\<close> only by spaces,
  which are cut off; \<open>undefined\<close> and \<open>null\<close> are bound as \<open>NULL\<close>.
\<close>

definition pg_text :: "string \<Rightarrow> bool" where
  "pg_text s = (CHR 0x00 \<notin> set s)"

definition int4 :: "int \<Rightarrow> bool" where
  "int4 n = (- 2147483648 \<le> n \<and> n \<le> 2147483647)"

definition varchar :: "nat \<Rightarrow> string \<Rightarrow> string option" where
  "varchar n s =
     (if \<not> pg_text s then None
      else if length s \<le> n then Some s
      else if list_all (\<lambda>c. c = CHR '' '') (drop n s) then Some (take n s)
      else None)"

definition varchar_null :: "nat \<Rightarrow> string option \<Rightarrow> string option option" where
  "varchar_null n v = (case v of None \<Rightarrow> Some None | Some s \<Rightarrow> map_option Some (varchar n s))"

text \<open>
  A \<open>JSONB\<close> parameter. The routes bind the text \<open>JSON.stringify(v)\<close> of a JavaScript
  value \<open>v\<close>, and PostgreSQL parses that text into a \<open>jsonb\<close> value: \<open>jsonb_in\<close> is the
  two steps together. The stored value has the members and elements of \<open>v\<close>, but not its
  text: the keys of an object are stored in the order of \<open>jsonb\<close> (shorter keys first,
  keys of one length by their UTF-8 bytes), a number is stored as the decimal that
  \<open>toString\<close> wrote, and a string or key with the character NUL (written \<open>\u0000\<close>) is
  refused. A character of the model is a code point below 256.
\<close>

definition utf8 :: "string \<Rightarrow> nat list" where
  "utf8 s = concat (map (\<lambda>c. if of_char c < (128 :: nat) then [of_char c]
                               else [192 + of_char c div 64, 128 + of_char c mod 64]) s)"

fun bytes_less :: "nat list \<Rightarrow> nat list \<Rightarrow> bool" where
  "bytes_less xs [] = False"
| "bytes_less [] (y # ys) = True"
| "bytes_less (x # xs) (y # ys) = (x < y \<or> (x = y \<and> bytes_less xs ys))"

definition key_less :: "string \<Rightarrow> string \<Rightarrow> bool" where
  "key_less a b =
     (length (utf8 a) < length (utf8 b) \<or>
      (length (utf8 a) = length (utf8 b) \<and> bytes_less (utf8 a) (utf8 b)))"

fun put_member :: "string \<Rightarrow> 'a \<Rightarrow> (string \<times> 'a) list \<Rightarrow> (string \<times> 'a) list" where
  "put_member k v [] = [(k, v)]"
| "put_member k v ((k', v') # ms) =
     (if k = k' then (k, v) # ms
      else if key_less k k' then (k, v) # (k', v') # ms
      else (k', v') # put_member k v ms)"

definition jsonb_object :: "(string \<times> 'a) list \<Rightarrow> (string \<times> 'a) list" where
  "jsonb_object ms = foldl (\<lambda>acc m. put_member (fst m) (snd m) acc) [] ms"

primrec jsonb :: "(rat \<Rightarrow> rat) \<Rightarrow> json \<Rightarrow> json" where
  "jsonb toString JNull = JNull"
| "jsonb toString (JBool b) = JBool b"
| "jsonb toString (JNumber d) = JNumber (toString d)"
| "jsonb toString (JString s) = JString s"
| "jsonb toString (JArray xs) = JArray (map (jsonb toString) xs)"
| "jsonb toString (JObject ms) = JObject (jsonb_object (map (map_prod id (jsonb toString)) ms))"

primrec jsonb_accepts :: "json \<Rightarrow> bool" where
  "jsonb_accepts JNull = True"
| "jsonb_accepts (JBool b) = True"
| "jsonb_accepts (JNumber d) = True"
| "jsonb_accepts (JString s) = pg_text s"
| "jsonb_accepts (JArray xs) = list_all (\<lambda>b. b) (map jsonb_accepts xs)"
| "jsonb_accepts (JObject ms) =
     list_all (\<lambda>m. pg_text (fst m) \<and> snd m) (map (map_prod id jsonb_accepts) ms)"

definition jsonb_in :: "(rat \<Rightarrow> rat) \<Rightarrow> json \<Rightarrow> json option" where
  "jsonb_in toString v = (if jsonb_accepts v then Some (jsonb toString v) else None)"

section \<open>Transactions and responses (config/database.js)\<close>

text \<open>
  A route that calls \<open>beginTransaction\<close> works on its own copy of the tables; the copy
  becomes the database at \<open>COMMIT\<close> and is dropped at \<open>ROLLBACK\<close>. Sequence values
  are not transactional in PostgreSQL: a rollback keeps them. \<open>commitTransaction\<close> and
  \<open>rollbackTransaction\<close> both end with \<open>client.release()\<close>.

  What a route leaves behind is an \<open>outcome\<close>: the response sent (status code and
  message; \<open>Rejected\<close> when the handler's promise rejects before any response is sent),
  the database after it, and whether the handler is done while the connection it took
  from the pool is still checked out.
\<close>

datatype response = Response nat string | Rejected

record outcome =
  response :: response
  db_after :: database
  client_held :: bool

definition rollback_to :: "database \<Rightarrow> database \<Rightarrow> database" where
  "rollback_to snapshot work =
     snapshot\<lparr>orders_id_seq := orders_id_seq work, customers_id_seq := customers_id_seq work\<rparr>"

definition commitTransaction :: "response \<Rightarrow> database \<Rightarrow> outcome" where
  "commitTransaction r work = \<lparr>response = r, db_after = work, client_held = False\<rparr>"

definition rollbackTransaction :: "response \<Rightarrow> database \<Rightarrow> database \<Rightarrow> outcome" where
  "rollbackTransaction r snapshot work =
     \<lparr>response = r, db_after = rollback_to snapshot work, client_held = False\<rparr>"

section \<open>Triggers and statements on \<open>orders\<close>\<close>

text \<open>
  \<open>add_status_history\<close>, the \<open>AFTER UPDATE ... FOR EACH ROW\<close> trigger on \<open>orders\<close>:
  the rows it inserts for one updated row.
\<close>

definition add_status_history :: "order_row \<Rightarrow> order_row \<Rightarrow> status_history list" where
  "add_status_history OLD NEW =
     (if o_status OLD \<noteq> o_status NEW
      then [\<lparr>h_order_id = o_id NEW, h_status = o_status NEW,
             h_notes = Some ''Status changed automatically'', h_changed_by = None\<rparr>]
      else [])"

text \<open>\<open>UPDATE orders SET ... WHERE id = $n\<close>, with the trigger fired for each row it updates.\<close>

definition update_orders :: "(order_row \<Rightarrow> order_row) \<Rightarrow> nat \<Rightarrow> database \<Rightarrow> database" where
  "update_orders set_cols oid db =
     db\<lparr>orders := map (\<lambda>row. if o_id row = oid then set_cols row else row) (orders db),
        order_status_history := order_status_history db @
          concat (map (\<lambda>row. if o_id row = oid then add_status_history row (set_cols row) else [])
                      (orders db))\<rparr>"

definition insert_status_history :: "status_history \<Rightarrow> database \<Rightarrow> database" where
  "insert_status_history h db = db\<lparr>order_status_history := order_status_history db @ [h]\<rparr>"

text \<open>
  \<open>SELECT o.*, c... FROM orders o JOIN customers c ON o.customer_id = c.id WHERE o.id = $1\<close>.
  The parameter is compared with an \<open>INTEGER\<close> column: a value out of its range makes
  the statement throw (\<open>None\<close>).
\<close>

definition select_order_join_customer ::
  "database \<Rightarrow> nat \<Rightarrow> (order_row \<times> customer) list option" where
  "select_order_join_customer db oid =
     (if int4 (int oid)
      then Some (concat (map (\<lambda>row. map (\<lambda>c. (row, c))
                                        (filter (\<lambda>c. o_customer_id row = c_id c) (customers db)))
                             (filter (\<lambda>row. o_id row = oid) (orders db))))
      else None)"

text \<open>\<open>SELECT * FROM orders WHERE id = $1\<close>\<close>

definition select_order :: "database \<Rightarrow> nat \<Rightarrow> order_row list option" where
  "select_order db oid =
     (if int4 (int oid) then Some (filter (\<lambda>row. o_id row = oid) (orders db)) else None)"

section \<open>Rows of \<open>payments\<close>\<close>

text \<open>
  The row that \<open>INSERT INTO payments\<close> stores for its parameters, or \<open>None\<close> when a
  parameter does not fit its column: \<open>payment_id\<close> and \<open>payer_id\<close> are
  \<open>VARCHAR(255)\<close>, \<open>currency\<close> is \<open>VARCHAR(3)\<close>, \<open>amount\<close> is \<open>DECIMAL(10,2)\<close> and
  \<open>gateway_response\<close> is \<open>JSONB\<close>. The order id is that of a row read or inserted by the
  same transaction, so the foreign key holds. Both routes that insert a payment give
  the method \<open>paypal\<close>.
\<close>

definition payment_row ::
  "(rat \<Rightarrow> rat) \<Rightarrow> nat \<Rightarrow> string option \<Rightarrow> string option \<Rightarrow> number \<Rightarrow> string option \<Rightarrow>
   payment_status \<Rightarrow> json option \<Rightarrow> payment option" where
  "payment_row toString order_id payment_id payer_id amount_value currency_code st gateway =
     (case varchar_null 255 payment_id of
        None \<Rightarrow> None
      | Some stored_payment_id \<Rightarrow>
     (case varchar_null 255 payer_id of
        None \<Rightarrow> None
      | Some stored_payer_id \<Rightarrow>
     (case numeric_param toString amount_value of
        None \<Rightarrow> None
      | Some stored_amount \<Rightarrow>
     (case varchar_null 3 currency_code of
        None \<Rightarrow> None
      | Some stored_currency \<Rightarrow>
     (case (case gateway of
              None \<Rightarrow> Some None
            | Some v \<Rightarrow> map_option Some (jsonb_in toString v)) of
        None \<Rightarrow> None
      | Some stored_gateway \<Rightarrow>
          Some \<lparr>p_order_id = order_id, p_payment_method = Paypal,
                p_payment_id = stored_payment_id, p_payer_id = stored_payer_id,
                p_amount = stored_amount, p_currency = stored_currency,
                p_status = st, p_gateway_response = stored_gateway\<rparr>)))))"

definition insert_payment :: "payment \<Rightarrow> database \<Rightarrow> database" where
  "insert_payment p db = db\<lparr>payments := payments db @ [p]\<rparr>"

section \<open>PayPal (services/paypal.js)\<close>

text \<open>
  The capture response, as \<open>captureOrder\<close> returns it (\<open>response.data\<close>, which axios
  has parsed): \<open>pp_data\<close> is the whole value, and the other fields are the parts that
  \<open>extractPaymentInfo\<close> reads in it. \<open>pp_id\<close> is \<open>paypalResponse.id\<close> and
  \<open>pp_payer_id\<close> is \<open>paypalResponse.payer?.payer_id\<close>. \<open>pp_purchase_unit\<close> is
  \<open>paypalResponse.purchase_units[0]\<close>, \<open>None\<close> when there is none (reading into it
  throws). In a purchase unit, \<open>pu_capture_amount\<close> is
  \<open>payments?.captures?.[0]?.amount\<close> and \<open>pu_amount\<close> is \<open>amount\<close>; of an amount, the
  \<open>value\<close> is \<open>None\<close> when it is missing or empty, and the \<open>currency_code\<close> is \<open>None\<close>
  when it is missing.
\<close>

record paypal_amount =
  pa_value :: "amount_text option"
  pa_currency_code :: "string option"

record purchase_unit =
  pu_capture_amount :: "paypal_amount option"
  pu_amount :: "paypal_amount option"

record paypal_order =
  pp_id :: "string option"
  pp_payer_id :: "string option"
  pp_purchase_unit :: "purchase_unit option"
  pp_data :: json

record payment_info =
  paypalOrderId :: "string option"
  payerId :: "string option"
  amount :: number
  currency :: "string option"

text \<open>
  \<open>capture?.amount?.value || purchaseUnit.amount.value\<close> and
  \<open>capture?.amount?.currency_code || purchaseUnit.amount.currency_code\<close>: each of the
  two falls back on its own to the purchase unit's amount when the capture has no truthy
  value for it, and the fallback throws when the purchase unit has no amount.
  \<open>extractPaymentInfo\<close> turns every throw into its own error (\<open>None\<close>).
\<close>

definition extractPaymentInfo :: "paypal_order \<Rightarrow> payment_info option" where
  "extractPaymentInfo paypalResponse =
     (case pp_purchase_unit paypalResponse of
        None \<Rightarrow> None
      | Some purchaseUnit \<Rightarrow>
          let capture_value =
                (case pu_capture_amount purchaseUnit of None \<Rightarrow> None | Some a \<Rightarrow> pa_value a);
              capture_currency =
                (case pu_capture_amount purchaseUnit of
                   None \<Rightarrow> None
                 | Some a \<Rightarrow> pa_currency_code a);
              amount_read =
                (case capture_value of
                   Some v \<Rightarrow> Some (Some v)
                 | None \<Rightarrow> map_option pa_value (pu_amount purchaseUnit));
              currency_read =
                (case capture_currency of
                   Some (c # cs) \<Rightarrow> Some (Some (c # cs))
                 | _ \<Rightarrow> map_option pa_currency_code (pu_amount purchaseUnit))
          in (case amount_read of
                None \<Rightarrow> None
              | Some v \<Rightarrow>
                  (case currency_read of
                     None \<Rightarrow> None
                   | Some cur \<Rightarrow>
                       Some \<lparr>paypalOrderId = pp_id paypalResponse,
                             payerId = pp_payer_id paypalResponse,
                             amount = parseFloat_amount v,
                             currency = cur\<rparr>)))"

section \<open>POST /capture-payment\<close>

text \<open>
  \<open>Math.abs(paymentInfo.amount - parseFloat(order.total_amount)) > 0.01\<close>; a comparison
  with \<open>NaN\<close> is false.
\<close>

definition amount_mismatch :: "number \<Rightarrow> cents \<Rightarrow> bool" where
  "amount_mismatch paid total_amount =
     (case paid of
        NaN \<Rightarrow> False
      | Number a \<Rightarrow> \<bar>fl (a - parseFloat total_amount)\<bar> > fl (1 / 100))"

record capture_request =
  cr_paypalOrderId :: string
  cr_orderId :: nat

text \<open>
  The handler. \<open>captureOrder\<close> is the gateway call: it returns the capture response or
  throws (\<open>None\<close>). Every \<open>throw\<close> inside the \<open>try\<close> lands in the \<open>catch\<close>, which rolls
  back and answers 500. The confirmation e-mail after the commit cannot fail the request
  and touches no table.
\<close>

definition capture_payment ::
  "(rat \<Rightarrow> rat) \<Rightarrow> (string \<Rightarrow> paypal_order option) \<Rightarrow> capture_request \<Rightarrow> database \<Rightarrow> outcome" where
  "capture_payment toString captureOrder req db =
     (case select_order_join_customer db (cr_orderId req) of
        None \<Rightarrow> rollbackTransaction (Response 500 ''Failed to capture payment'') db db
      | Some [] \<Rightarrow> rollbackTransaction (Response 404 ''Order not found'') db db
      | Some ((order, cust) # _) \<Rightarrow>
          (case captureOrder (cr_paypalOrderId req) of
             None \<Rightarrow> rollbackTransaction (Response 500 ''Failed to capture payment'') db db
           | Some captureResult \<Rightarrow>
               (case extractPaymentInfo captureResult of
                  None \<Rightarrow> rollbackTransaction (Response 500 ''Failed to capture payment'') db db
                | Some paymentInfo \<Rightarrow>
                    if amount_mismatch (amount paymentInfo) (o_total_amount order)
                    then rollbackTransaction (Response 400 ''Payment amount mismatch'') db db
                    else
                      let db1 = update_orders
                                  (\<lambda>row. row\<lparr>o_payment_status := Paid, o_status := Confirmed\<rparr>)
                                  (cr_orderId req) db
                      in (case payment_row toString (cr_orderId req)
                                 (paypalOrderId paymentInfo) (payerId paymentInfo)
                                 (amount paymentInfo) (currency paymentInfo) Paid
                                 (Some (pp_data captureResult)) of
                            None \<Rightarrow>
                              rollbackTransaction (Response 500 ''Failed to capture payment'') db db1
                          | Some p \<Rightarrow>
                              let db2 = insert_payment p db1;
                                  db3 = insert_status_history
                                          \<lparr>h_order_id = cr_orderId req,
                                           h_status = Confirmed,
                                           h_notes = Some ''Payment received and confirmed'',
                                           h_changed_by = None\<rparr> db2
                              in commitTransaction (Response 200 ''Payment captured successfully'') db3))))"

section \<open>Validators (express-validator, validator.js)\<close>

text \<open>
  \<open>trim\<close> of validator.js removes white space (\<open>\s\<close>) at both ends; of the characters
  below 256 these are the six ASCII ones and the no-break space.
\<close>

definition is_space :: "char \<Rightarrow> bool" where
  "is_space c = (c \<in> set [CHR '' '', CHR 0x09, CHR 0x0A, CHR 0x0B, CHR 0x0C, CHR 0x0D, CHR 0xA0])"

definition trim :: "string \<Rightarrow> string" where
  "trim s = rev (dropWhile is_space (rev (dropWhile is_space s)))"

text \<open>
  \<open>isInt({ min: 1 })\<close> on a text: an optional sign and one digit or more
  (\<open>/^[-+]?[0-9]+$/\<close>), denoting a number from 1.
\<close>

definition is_digit :: "char \<Rightarrow> bool" where
  "is_digit c = (c \<in> set ''0123456789'')"

definition isInt_min_1 :: "string \<Rightarrow> bool" where
  "isInt_min_1 s =
     (case s of
        [] \<Rightarrow> False
      | c # cs \<Rightarrow>
          if c = CHR ''-'' then False
          else let ds = (if c = CHR ''+'' then cs else s)
               in ds \<noteq> [] \<and> list_all is_digit ds \<and> \<not> list_all (\<lambda>d. d = CHR ''0'') ds)"

text \<open>
  \<open>isEmail\<close>, \<open>normalizeEmail\<close> and \<open>isURL\<close> of validator.js; the argument of \<open>isURL\<close>
  says whether \<open>require_protocol\<close> is set.
\<close>

record validator_js =
  isEmail :: "string \<Rightarrow> bool"
  normalizeEmail :: "string \<Rightarrow> string"
  isURL :: "bool \<Rightarrow> string \<Rightarrow> bool"

section \<open>PUT /orders/:id/status (admin)\<close>

text \<open>
  \<open>validateStatusUpdate\<close>: the id is an integer from 1, the status one of the five enum
  literals, the notes (when given) trimmed and at most 1000 characters. It yields the
  values the handler then reads, or nothing when \<open>handleValidationErrors\<close> answers 400.
  \<open>su_id\<close> is the integer that the path segment denotes, and \<open>su_admin_id\<close> is
  \<open>req.admin.id\<close>, the id of a row of \<open>admin_users\<close> that \<open>authenticateAdmin\<close> has set.
\<close>

record status_update_request =
  su_id :: int
  su_status :: string
  su_notes :: "string option"
  su_admin_id :: nat

definition order_status_of :: "string \<Rightarrow> order_status option" where
  "order_status_of s =
     (if s = ''pending'' then Some Pending
      else if s = ''confirmed'' then Some Confirmed
      else if s = ''in_progress'' then Some In_progress
      else if s = ''completed'' then Some Completed
      else if s = ''cancelled'' then Some Cancelled
      else None)"

definition validateStatusUpdate ::
  "status_update_request \<Rightarrow> (nat \<times> order_status \<times> string option) option" where
  "validateStatusUpdate req =
     (if su_id req < 1 then None
      else case order_status_of (su_status req) of
             None \<Rightarrow> None
           | Some st \<Rightarrow>
               (case su_notes req of
                  None \<Rightarrow> Some (nat (su_id req), st, None)
                | Some n \<Rightarrow>
                    if length (trim n) \<le> 1000 then Some (nat (su_id req), st, Some (trim n))
                    else None))"

text \<open>
  The route. A request that fails validation is answered before the handler takes a
  client. In the handler every statement that throws lands in the \<open>catch\<close>, which rolls
  back and answers 500: the \<open>SELECT\<close> for an id beyond \<open>INTEGER\<close>, the \<open>INSERT\<close> into
  \<open>order_status_history\<close> for notes that are no PostgreSQL text.
\<close>

definition update_order_status :: "status_update_request \<Rightarrow> database \<Rightarrow> outcome" where
  "update_order_status req db =
     (case validateStatusUpdate req of
        None \<Rightarrow> \<lparr>response = Response 400 ''Validation failed'', db_after = db, client_held = False\<rparr>
      | Some (oid, status, body_notes) \<Rightarrow>
          let notes = (case body_notes of None \<Rightarrow> [] | Some n \<Rightarrow> n)
          in (case select_order db oid of
                None \<Rightarrow> rollbackTransaction (Response 500 ''Failed to update order status'') db db
              | Some [] \<Rightarrow> rollbackTransaction (Response 404 ''Order not found'') db db
              | Some (currentOrder # _) \<Rightarrow>
                  let db1 = update_orders (\<lambda>row. row\<lparr>o_status := status\<rparr>) oid db
                  in if \<not> pg_text notes
                     then rollbackTransaction
                            (Response 500 ''Failed to update order status'') db db1
                     else
                       let db2 = insert_status_history
                                   \<lparr>h_order_id = oid, h_status = status, h_notes = Some notes,
                                    h_changed_by = Some (su_admin_id req)\<rparr> db1
                       in commitTransaction
                            (Response 200 ''Order status updated successfully'') db2))"

section \<open>POST /webhook/paypal\<close>

text \<open>
  \<open>handlePaymentCompleted\<close> and \<open>handlePaymentDenied\<close> run one \<open>UPDATE payments SET
  status = $1, gateway_response = $2 WHERE payment_id = $3\<close> on the pool (no
  transaction) and swallow every error. \<open>wr_id\<close> is \<open>resource.id\<close> and \<open>wr_data\<close> the
  resource itself. An event without a resource throws inside the helper's \<open>try\<close>; a
  resource that PostgreSQL refuses as \<open>jsonb\<close>, or an id that it refuses as text, makes
  the statement throw; a resource without an id binds \<open>NULL\<close>, which equals no
  \<open>payment_id\<close>. In each of these cases no row changes.
\<close>

record webhook_resource =
  wr_id :: "string option"
  wr_data :: json

record webhook_event =
  event_type :: string
  resource :: "webhook_resource option"

definition update_payments_status ::
  "(rat \<Rightarrow> rat) \<Rightarrow> payment_status \<Rightarrow> webhook_resource option \<Rightarrow> database \<Rightarrow> database" where
  "update_payments_status toString st res db =
     (case res of
        None \<Rightarrow> db
      | Some r \<Rightarrow>
          (case jsonb_in toString (wr_data r) of
             None \<Rightarrow> db
           | Some stored \<Rightarrow>
               (case wr_id r of
                  None \<Rightarrow> db
                | Some i \<Rightarrow>
                    if \<not> pg_text i then db
                    else db\<lparr>payments :=
                              map (\<lambda>p. if p_payment_id p = Some i
                                        then p\<lparr>p_status := st, p_gateway_response := Some stored\<rparr>
                                        else p)
                                  (payments db)\<rparr>)))"

definition handlePaymentCompleted ::
  "(rat \<Rightarrow> rat) \<Rightarrow> webhook_resource option \<Rightarrow> database \<Rightarrow> database" where
  "handlePaymentCompleted toString res db = update_payments_status toString Paid res db"

definition handlePaymentDenied ::
  "(rat \<Rightarrow> rat) \<Rightarrow> webhook_resource option \<Rightarrow> database \<Rightarrow> database" where
  "handlePaymentDenied toString res db = update_payments_status toString Failed res db"

text \<open>
  The handler; \<open>production\<close> says whether \<open>NODE_ENV\<close> is \<open>production\<close> (otherwise the
  \<open>CHECKOUT.ORDER.APPROVED\<close> branch logs \<open>webhookEvent.resource.id\<close>, which throws
  into the handler's \<open>catch\<close> when there is no resource).
\<close>

definition paypal_webhook :: "(rat \<Rightarrow> rat) \<Rightarrow> bool \<Rightarrow> webhook_event \<Rightarrow> database \<Rightarrow> outcome" where
  "paypal_webhook toString production webhookEvent db =
     (if event_type webhookEvent = ''CHECKOUT.ORDER.APPROVED'' then
        (if \<not> production \<and> resource webhookEvent = None
         then \<lparr>response = Response 500 [], db_after = db, client_held = False\<rparr>
         else \<lparr>response = Response 200 [], db_after = db, client_held = False\<rparr>)
      else if event_type webhookEvent = ''PAYMENT.CAPTURE.COMPLETED'' then
        \<lparr>response = Response 200 [],
         db_after = handlePaymentCompleted toString (resource webhookEvent) db,
         client_held = False\<rparr>
      else if event_type webhookEvent = ''PAYMENT.CAPTURE.DENIED'' then
        \<lparr>response = Response 200 [],
         db_after = handlePaymentDenied toString (resource webhookEvent) db,
         client_held = False\<rparr>
      else \<lparr>response = Response 200 [], db_after = db, client_held = False\<rparr>)"

section \<open>Tracking codes (\<open>generate_tracking_id\<close>, \<open>set_tracking_id\<close>)\<close>

text \<open>\<open>NOW()\<close>, as far as \<open>TO_CHAR(NOW(), 'YYYYMMDD')\<close> reads it.\<close>

record date =
  year :: nat
  month :: nat
  day :: nat

text \<open>\<open>n::TEXT\<close> for a sequence value: its decimal digits.\<close>

definition digit_char :: "nat \<Rightarrow> char" where
  "digit_char d = ''0123456789'' ! d"

fun text_of_nat :: "nat \<Rightarrow> string" where
  "text_of_nat n =
     (if n < 10 then [digit_char n] else text_of_nat (n div 10) @ [digit_char (n mod 10)])"

declare text_of_nat.simps [simp del]

text \<open>
  PostgreSQL's \<open>LPAD(s, n, fill)\<close> with a one-character fill: it pads on the left up to
  length \<open>n\<close>, and it cuts a longer string down to its first \<open>n\<close> characters.
\<close>

definition lpad :: "string \<Rightarrow> nat \<Rightarrow> char \<Rightarrow> string" where
  "lpad s n fill = (if n \<le> length s then take n s else replicate (n - length s) fill @ s)"

text \<open>
  \<open>TO_CHAR(d, 'YYYYMMDD')\<close>: the year in four digits or more, month and day in two.
\<close>

definition zero_pad :: "nat \<Rightarrow> nat \<Rightarrow> string" where
  "zero_pad w n = replicate (w - length (text_of_nat n)) CHR ''0'' @ text_of_nat n"

definition to_char_YYYYMMDD :: "date \<Rightarrow> string" where
  "to_char_YYYYMMDD d = zero_pad 4 (year d) @ zero_pad 2 (month d) @ zero_pad 2 (day d)"

text \<open>
  \<open>nextval\<close> of the sequence of a \<open>SERIAL\<close> column: the next value, or an error
  (\<open>None\<close>) once the sequence has reached its maximum, the largest \<open>INTEGER\<close>.
\<close>

definition nextval_orders_id_seq :: "database \<Rightarrow> (nat \<times> database) option" where
  "nextval_orders_id_seq db =
     (if orders_id_seq db < 2147483647
      then Some (orders_id_seq db + 1, db\<lparr>orders_id_seq := orders_id_seq db + 1\<rparr>)
      else None)"

definition nextval_customers_id_seq :: "database \<Rightarrow> (nat \<times> database) option" where
  "nextval_customers_id_seq db =
     (if customers_id_seq db < 2147483647
      then Some (customers_id_seq db + 1, db\<lparr>customers_id_seq := customers_id_seq db + 1\<rparr>)
      else None)"

definition generate_tracking_id :: "date \<Rightarrow> database \<Rightarrow> (string \<times> database) option" where
  "generate_tracking_id now db =
     (case nextval_orders_id_seq db of
        None \<Rightarrow> None
      | Some (n, db') \<Rightarrow>
          Some (''SEO-'' @ to_char_YYYYMMDD now @ ''-'' @ lpad (text_of_nat n) 4 CHR ''0'', db'))"

text \<open>
  \<open>INSERT INTO orders (...) VALUES (...) RETURNING *\<close> for a row that names neither
  \<open>id\<close> nor \<open>tracking_id\<close>; \<open>total_text\<close> is the decimal bound to \<open>total_amount\<close>.
  Of the parameters, the keywords and the quantity come from the request and the total
  is computed; the others were read from the catalog and from \<open>customers\<close> just before,
  so they fit their columns. PostgreSQL converts the parameters before it runs the
  statement: keywords that are no text, a quantity beyond \<open>INTEGER\<close> and a total that
  does not fit \<open>DECIMAL(10,2)\<close> make it throw with no sequence value drawn. Then the
  column default draws the id from \<open>orders_id_seq\<close>, and the \<open>BEFORE INSERT\<close> trigger
  \<open>set_tracking_id\<close> calls \<open>generate_tracking_id\<close>, which draws the next value of the
  same sequence. The primary key and the \<open>UNIQUE\<close> constraint on \<open>tracking_id\<close> refuse
  a duplicate. A statement that throws gives \<open>None\<close>, and the sequence keeps the values
  drawn.
\<close>

definition insert_order ::
  "date \<Rightarrow> order_row \<Rightarrow> rat \<Rightarrow> database \<Rightarrow> order_row option \<times> database" where
  "insert_order now vals total_text db =
     (if \<not> pg_text (o_keywords vals) \<or> \<not> int4 (o_quantity vals) then (None, db)
      else case numeric_10_2 total_text of
           None \<Rightarrow> (None, db)
         | Some stored_total \<Rightarrow>
             (case nextval_orders_id_seq db of
                None \<Rightarrow> (None, db)
              | Some (new_id, db1) \<Rightarrow>
                  (case generate_tracking_id now db1 of
                     None \<Rightarrow> (None, db1)
                   | Some (tracking, db2) \<Rightarrow>
                       let NEW = vals\<lparr>o_id := new_id, o_tracking_id := tracking,
                                       o_total_amount := stored_total\<rparr>
                       in if new_id \<in> set (map o_id (orders db2)) \<or>
                             tracking \<in> set (map o_tracking_id (orders db2))
                          then (None, db2)
                          else (Some NEW, db2\<lparr>orders := orders db2 @ [NEW]\<rparr>))))"

section \<open>Catalog and customers\<close>

text \<open>
  \<open>SELECT st.*, s.name as service_name FROM service_tiers st JOIN services s
  ON st.service_id = s.id WHERE st.id = $1 AND st.is_active = true AND s.is_active = true\<close>;
  it throws (\<open>None\<close>) for a parameter that is no text.
\<close>

definition select_service_tier ::
  "database \<Rightarrow> string \<Rightarrow> (service_tier \<times> string) list option" where
  "select_service_tier db tier_id =
     (if pg_text tier_id
      then Some (concat (map (\<lambda>st. map (\<lambda>s. (st, s_name s))
                                       (filter (\<lambda>s. st_service_id st = s_id s \<and> s_is_active s)
                                               (services db)))
                             (filter (\<lambda>st. st_id st = tier_id \<and> st_is_active st)
                                     (service_tiers db))))
      else None)"

text \<open>\<open>SELECT id FROM customers WHERE email = $1\<close>\<close>

definition select_customer_id :: "database \<Rightarrow> string \<Rightarrow> nat list option" where
  "select_customer_id db email =
     (if pg_text email
      then Some (map c_id (filter (\<lambda>c. c_email c = email) (customers db)))
      else None)"

text \<open>
  \<open>UPDATE customers SET name = $1, website = $2 ... WHERE id = $3\<close>; \<open>name\<close> is
  \<open>VARCHAR(255)\<close> and \<open>website\<close> is \<open>VARCHAR(500)\<close>.
\<close>

definition update_customer :: "string \<Rightarrow> string \<Rightarrow> nat \<Rightarrow> database \<Rightarrow> database option" where
  "update_customer name website cid db =
     (case varchar 255 name of
        None \<Rightarrow> None
      | Some stored_name \<Rightarrow>
          (case varchar 500 website of
             None \<Rightarrow> None
           | Some stored_website \<Rightarrow>
               Some (db\<lparr>customers :=
                          map (\<lambda>c. if c_id c = cid
                                    then c\<lparr>c_name := stored_name, c_website := stored_website\<rparr>
                                    else c)
                              (customers db)\<rparr>)))"

text \<open>
  \<open>INSERT INTO customers (name, email, website[, phone]) VALUES (...) RETURNING id\<close>.
  The parameters are converted to \<open>VARCHAR(255)\<close>, \<open>VARCHAR(255)\<close>, \<open>VARCHAR(500)\<close>
  and \<open>VARCHAR(50)\<close> first; then the id is drawn from \<open>customers_id_seq\<close>, and the
  \<open>UNIQUE\<close> constraint on \<open>email\<close> refuses a duplicate.
\<close>

definition insert_customer ::
  "string \<Rightarrow> string \<Rightarrow> string \<Rightarrow> string option \<Rightarrow> database \<Rightarrow> nat option \<times> database" where
  "insert_customer name email website phone db =
     (case varchar 255 name of
        None \<Rightarrow> (None, db)
      | Some stored_name \<Rightarrow>
     (case varchar 255 email of
        None \<Rightarrow> (None, db)
      | Some stored_email \<Rightarrow>
     (case varchar 500 website of
        None \<Rightarrow> (None, db)
      | Some stored_website \<Rightarrow>
     (case varchar_null 50 phone of
        None \<Rightarrow> (None, db)
      | Some stored_phone \<Rightarrow>
     (case nextval_customers_id_seq db of
        None \<Rightarrow> (None, db)
      | Some (new_id, db1) \<Rightarrow>
          if stored_email \<in> set (map c_email (customers db1)) \<or>
             new_id \<in> set (map c_id (customers db1))
          then (None, db1)
          else (Some new_id,
                db1\<lparr>customers := customers db1 @
                       [\<lparr>c_id = new_id, c_name = stored_name, c_email = stored_email,
                         c_website = stored_website, c_phone = stored_phone\<rparr>]\<rparr>))))))"

section \<open>Request bodies with a cart\<close>

text \<open>
  The body of \<open>POST /test-order\<close> and \<open>POST /create-payment-intent\<close>, and the part of
  the body of \<open>POST /create\<close> that \<open>validateOrderInput\<close> reads: \<open>cart\<close> is \<open>None\<close> when
  it is missing or no array; a customer field that is missing or the empty string is the
  empty string (both are falsy); \<open>ci_quantity\<close> and \<open>ci_keywords\<close> are \<open>None\<close> when the
  item leaves them undefined.
\<close>

record cart_item =
  ci_serviceId :: string
  ci_quantity :: "int option"
  ci_keywords :: "string option"

record customer_input =
  cu_name :: string
  cu_email :: string
  cu_website :: string
  cu_phone :: string

record cart_request =
  cart :: "cart_item list option"
  customer_in :: "customer_input option"

section \<open>POST /create\<close>

text \<open>
  The request body. The route runs \<open>validateOrderInput\<close>, which reads \<open>customer\<close> and
  \<open>cart\<close>, then \<open>handleValidationErrors\<close>, then \<open>validateOrderCreation\<close>, which reads
  the other fields; a text field that is missing is the empty string, and \<open>rq_quantity\<close>
  is the integer that the optional \<open>quantity\<close> denotes.
\<close>

record create_request =
  rq_body :: cart_request
  rq_customerName :: string
  rq_customerEmail :: string
  rq_website :: string
  rq_keywords :: string
  rq_serviceId :: string
  rq_quantity :: "int option"

text \<open>
  \<open>validateOrderInput\<close>: the customer's name trimmed has 2 to 100 characters, the
  customer's email is an email, the customer's website a URL, and the cart an array with
  an element.
\<close>

definition validateOrderInput :: "validator_js \<Rightarrow> create_request \<Rightarrow> bool" where
  "validateOrderInput v req =
     ((case customer_in (rq_body req) of
         None \<Rightarrow> False
       | Some cu \<Rightarrow>
           2 \<le> length (trim (cu_name cu)) \<and> length (trim (cu_name cu)) \<le> 100 \<and>
           isEmail v (cu_email cu) \<and> isURL v False (cu_website cu)) \<and>
      (case cart (rq_body req) of
         None \<Rightarrow> False
       | Some items \<Rightarrow> items \<noteq> []))"

text \<open>
  \<open>validateOrderCreation\<close>: it yields the body as its sanitizers leave it (the name and
  the keywords trimmed, the email normalized), or nothing when
  \<open>handleValidationErrors\<close> answers 400. The service id must be written as an integer
  from 1, although the handler looks it up in \<open>service_tiers.id\<close>, a \<open>VARCHAR(50)\<close>
  column whose seeded values are names such as \<open>monthly-seo-standard\<close>.
\<close>

definition validateOrderCreation :: "validator_js \<Rightarrow> create_request \<Rightarrow> create_request option" where
  "validateOrderCreation v req =
     (if 2 \<le> length (trim (rq_customerName req)) \<and> length (trim (rq_customerName req)) \<le> 255 \<and>
         isEmail v (rq_customerEmail req) \<and>
         isURL v True (rq_website req) \<and>
         1 \<le> length (trim (rq_keywords req)) \<and> length (trim (rq_keywords req)) \<le> 1000 \<and>
         isInt_min_1 (rq_serviceId req) \<and>
         (case rq_quantity req of None \<Rightarrow> True | Some q \<Rightarrow> 1 \<le> q \<and> q \<le> 100)
      then Some (req\<lparr>rq_customerName := trim (rq_customerName req),
                      rq_customerEmail := normalizeEmail v (rq_customerEmail req),
                      rq_keywords := trim (rq_keywords req)\<rparr>)
      else None)"

text \<open>\<open>const totalAmount = serviceTier.price * quantity\<close>: a binary64 product.\<close>

definition total_amount :: "cents \<Rightarrow> int \<Rightarrow> rat" where
  "total_amount price qty = fl (parseFloat price * of_int qty)"

text \<open>
  The route up to its response. A request that fails a validator is answered 400 before
  the handler takes a client. In the handler a statement that throws lands in the
  \<open>catch\<close>, which rolls back and answers 500. After the commit the handler builds the
  argument of \<open>paypalService.createOrder\<close> from \<open>service.name\<close>, and no \<open>service\<close> is in
  scope: the \<open>ReferenceError\<close> goes to the \<open>catch\<close>, whose \<open>rollbackTransaction\<close>
  releases the client a second time, which throws; the handler's promise rejects with
  the order committed.
\<close>

definition create ::
  "validator_js \<Rightarrow> (rat \<Rightarrow> rat) \<Rightarrow> date \<Rightarrow> create_request \<Rightarrow> database \<Rightarrow> outcome" where
  "create v toString now request db =
     (if \<not> validateOrderInput v request
      then \<lparr>response = Response 400 ''Validation failed'', db_after = db, client_held = False\<rparr>
      else
       (case validateOrderCreation v request of
          None \<Rightarrow>
            \<lparr>response = Response 400 ''Validation failed'', db_after = db, client_held = False\<rparr>
        | Some req \<Rightarrow>
            (let qty = (case rq_quantity req of None \<Rightarrow> 1 | Some q \<Rightarrow> q)
             in (case select_service_tier db (rq_serviceId req) of
                   None \<Rightarrow> rollbackTransaction (Response 500 ''Failed to create order'') db db
                 | Some [] \<Rightarrow>
                     rollbackTransaction (Response 400 ''Invalid or inactive service tier'') db db
                 | Some ((serviceTier, service_name) # _) \<Rightarrow>
                     (let totalAmount = total_amount (st_price serviceTier) qty
                      in (case select_customer_id db (rq_customerEmail req) of
                            None \<Rightarrow>
                              rollbackTransaction (Response 500 ''Failed to create order'') db db
                          | Some found \<Rightarrow>
                              (let (customerId, db1) =
                                     (case found of
                                        cid # _ \<Rightarrow>
                                          (case update_customer (rq_customerName req)
                                                  (rq_website req) cid db of
                                             None \<Rightarrow> (None, db)
                                           | Some db' \<Rightarrow> (Some cid, db'))
                                      | [] \<Rightarrow> insert_customer (rq_customerName req)
                                                (rq_customerEmail req) (rq_website req) None db)
                               in (case customerId of
                                     None \<Rightarrow>
                                       rollbackTransaction
                                         (Response 500 ''Failed to create order'') db db1
                                   | Some cid \<Rightarrow>
                                       (case insert_order now
                                               \<lparr>o_id = 0, o_tracking_id = [],
                                                o_customer_id = cid,
                                                o_service_tier_id = rq_serviceId req,
                                                o_service_name = service_name,
                                                o_service_tier_name = st_name serviceTier,
                                                o_service_price = st_price serviceTier,
                                                o_delivery_days = st_delivery_days serviceTier,
                                                o_keywords = rq_keywords req,
                                                o_quantity = qty,
                                                o_total_amount = 0,
                                                o_status = Pending,
                                                o_payment_status = Pay_pending\<rparr>
                                               (toString totalAmount) db1 of
                                          (None, db2) \<Rightarrow>
                                            rollbackTransaction
                                              (Response 500 ''Failed to create order'') db db2
                                        | (Some order, db2) \<Rightarrow>
                                            (let db3 = insert_status_history
                                                         \<lparr>h_order_id = o_id order,
                                                          h_status = Pending,
                                                          h_notes = Some ''Order created'',
                                                          h_changed_by = None\<rparr> db2
                                             in \<lparr>response = Rejected, db_after = db3,
                                                 client_held = False\<rparr>))))))))))"

section \<open>POST /test-order\<close>

text \<open>
  The loop over the cart: one order and one payment per item. It stops at the first item
  whose tier is unknown (with the 400 response the handler sends after its rollback) or
  whose statements throw (with the 500 response of the \<open>catch\<close>); the database that
  comes with it carries the sequence values drawn so far.
\<close>

fun test_order_items ::
  "(rat \<Rightarrow> rat) \<Rightarrow> date \<Rightarrow> nat \<Rightarrow> cart_item list \<Rightarrow> database \<Rightarrow> response option \<times> database" where
  "test_order_items toString now customerId [] db = (None, db)"
| "test_order_items toString now customerId (cartItem # rest) db =
     (let qty = (case ci_quantity cartItem of None \<Rightarrow> 1 | Some q \<Rightarrow> q);
          kw = (case ci_keywords cartItem of
                  None \<Rightarrow> ''SEO optimization, digital marketing'' | Some k \<Rightarrow> k)
      in case select_service_tier db (ci_serviceId cartItem) of
           None \<Rightarrow> (Some (Response 500 ''Failed to create test order''), db)
         | Some [] \<Rightarrow>
             (Some (Response 400 (''Invalid service selected. Service ID '' @ [CHR 0x27] @
                     ci_serviceId cartItem @ [CHR 0x27] @ '' not found.'')), db)
         | Some ((serviceTier, service_name) # _) \<Rightarrow>
             let itemTotal = total_amount (st_price serviceTier) qty
             in (case insert_order now
                        \<lparr>o_id = 0, o_tracking_id = [],
                         o_customer_id = customerId,
                         o_service_tier_id = ci_serviceId cartItem,
                         o_service_name = service_name,
                         o_service_tier_name = st_name serviceTier,
                         o_service_price = st_price serviceTier,
                         o_delivery_days = st_delivery_days serviceTier,
                         o_keywords = kw,
                         o_quantity = qty,
                         o_total_amount = 0,
                         o_status = Confirmed,
                         o_payment_status = Paid\<rparr>
                        (toString itemTotal) db of
                   (None, db1) \<Rightarrow> (Some (Response 500 ''Failed to create test order''), db1)
                 | (Some order, db1) \<Rightarrow>
                     (case payment_row toString (o_id order)
                             (Some (''TEST-'' @ o_tracking_id order)) None (Number itemTotal)
                             (Some ''USD'') Paid None of
                        None \<Rightarrow> (Some (Response 500 ''Failed to create test order''), db1)
                      | Some p \<Rightarrow>
                          test_order_items toString now customerId rest (insert_payment p db1))))"

text \<open>
  The handler. Its three validation branches answer 400 and return at once: they call
  neither \<open>commitTransaction\<close> nor \<open>rollbackTransaction\<close>, so the client taken by
  \<open>beginTransaction\<close> stays checked out.
\<close>

definition test_order :: "(rat \<Rightarrow> rat) \<Rightarrow> date \<Rightarrow> cart_request \<Rightarrow> database \<Rightarrow> outcome" where
  "test_order toString now req db =
     (case cart req of
        None \<Rightarrow>
          \<lparr>response = Response 400 ''Cart is required and must contain at least one item'',
           db_after = db, client_held = True\<rparr>
      | Some [] \<Rightarrow>
          \<lparr>response = Response 400 ''Cart is required and must contain at least one item'',
           db_after = db, client_held = True\<rparr>
      | Some (item # items) \<Rightarrow>
          (case customer_in req of
             None \<Rightarrow>
               \<lparr>response = Response 400 ''Customer name, email, and website are required'',
                db_after = db, client_held = True\<rparr>
           | Some cu \<Rightarrow>
               if cu_name cu = [] \<or> cu_email cu = [] \<or> cu_website cu = [] then
                 \<lparr>response = Response 400 ''Customer name, email, and website are required'',
                  db_after = db, client_held = True\<rparr>
               else if length (cu_name cu) < 2 \<or> 255 < length (cu_name cu) then
                 \<lparr>response = Response 400 ''Customer name must be between 2 and 255 characters'',
                  db_after = db, client_held = True\<rparr>
               else
                 (case select_customer_id db (cu_email cu) of
                    None \<Rightarrow>
                      rollbackTransaction (Response 500 ''Failed to create test order'') db db
                  | Some found \<Rightarrow>
                      let (customerId, db1) =
                            (case found of
                               cid # _ \<Rightarrow> (Some cid, db)
                             | [] \<Rightarrow> insert_customer (cu_name cu) (cu_email cu) (cu_website cu)
                                       (if cu_phone cu = [] then None else Some (cu_phone cu)) db)
                      in (case customerId of
                            None \<Rightarrow>
                              rollbackTransaction
                                (Response 500 ''Failed to create test order'') db db1
                          | Some cid \<Rightarrow>
                              (case test_order_items toString now cid (item # items) db1 of
                                 (Some r, db2) \<Rightarrow> rollbackTransaction r db db2
                               | (None, db2) \<Rightarrow>
                                   commitTransaction
                                     (Response 200 (text_of_nat (length (item # items)) @
                                        '' test orders created successfully'')) db2)))))"

section \<open>POST /create-payment-intent\<close>

text \<open>
  The loop that prices the cart; it stops at the first item whose tier is unknown, or
  whose query throws. \<open>totalAmount += itemTotal\<close> is a binary64 sum.
\<close>

fun payment_intent_total :: "cart_item list \<Rightarrow> database \<Rightarrow> rat \<Rightarrow> response + rat" where
  "payment_intent_total [] db totalAmount = Inr totalAmount"
| "payment_intent_total (cartItem # rest) db totalAmount =
     (let qty = (case ci_quantity cartItem of None \<Rightarrow> 1 | Some q \<Rightarrow> q)
      in case select_service_tier db (ci_serviceId cartItem) of
           None \<Rightarrow> Inl (Response 500 ''Failed to create payment intent'')
         | Some [] \<Rightarrow> Inl (Response 400 (''Invalid service selected: '' @ ci_serviceId cartItem))
         | Some ((serviceTier, service_name) # _) \<Rightarrow>
             payment_intent_total rest db
               (fl (totalAmount + total_amount (st_price serviceTier) qty)))"

text \<open>
  The handler; \<open>createPaymentIntent\<close> is the Stripe call on the total (\<open>False\<close> when it
  throws). The cart check returns without releasing the client. After the loop the
  handler rolls back, which releases the client, before it calls Stripe; when that call
  (or reading \<open>customer.email\<close> of a missing customer) throws, the \<open>catch\<close> releases the
  client a second time, which throws, and the handler's promise rejects.
\<close>

definition create_payment_intent :: "(rat \<Rightarrow> bool) \<Rightarrow> cart_request \<Rightarrow> database \<Rightarrow> outcome" where
  "create_payment_intent createPaymentIntent req db =
     (case cart req of
        None \<Rightarrow>
          \<lparr>response = Response 400 ''Cart is required and must contain at least one item'',
           db_after = db, client_held = True\<rparr>
      | Some [] \<Rightarrow>
          \<lparr>response = Response 400 ''Cart is required and must contain at least one item'',
           db_after = db, client_held = True\<rparr>
      | Some (item # items) \<Rightarrow>
          (case payment_intent_total (item # items) db 0 of
             Inl r \<Rightarrow> rollbackTransaction r db db
           | Inr totalAmount \<Rightarrow>
               if customer_in req \<noteq> None \<and> createPaymentIntent totalAmount
               then rollbackTransaction (Response 200 []) db db
               else \<lparr>response = Rejected, db_after = db, client_held = False\<rparr>))"

section \<open>Example data\<close>

text \<open>
  A database after one order for the tier priced 450.00 (quantity 1), the PayPal capture
  of that amount with the value that PostgreSQL stores for it, and requests on them;
  \<open>exact_decimal\<close> writes a double out in full, which reads back as the same double.
\<close>

definition monthly_seo :: service where
  "monthly_seo = \<lparr>s_id = ''monthly-seo-packages'', s_name = ''Monthly SEO Packages'',
                   s_is_active = True\<rparr>"

definition standard_monthly :: service_tier where
  "standard_monthly =
     \<lparr>st_id = ''monthly-seo-standard'', st_service_id = ''monthly-seo-packages'',
      st_name = ''Standard Monthly'', st_price = 45000, st_delivery_days = 30,
      st_is_active = True\<rparr>"

definition john :: customer where
  "john = \<lparr>c_id = 1, c_name = ''John Smith'', c_email = ''john.smith@example.com'',
            c_website = ''https://johnsmith.com'', c_phone = None\<rparr>"

definition order1 :: order_row where
  "order1 =
     \<lparr>o_id = 1, o_tracking_id = ''SEO-20250131-0002'', o_customer_id = 1,
      o_service_tier_id = ''monthly-seo-standard'', o_service_name = ''Monthly SEO Packages'',
      o_service_tier_name = ''Standard Monthly'', o_service_price = 45000,
      o_delivery_days = 30, o_keywords = ''seo audit'', o_quantity = 1,
      o_total_amount = 45000, o_status = Pending, o_payment_status = Pay_pending\<rparr>"

definition order_created :: status_history where
  "order_created = \<lparr>h_order_id = 1, h_status = Pending, h_notes = Some ''Order created'',
                     h_changed_by = None\<rparr>"

definition db0 :: database where
  "db0 = \<lparr>services = [monthly_seo], service_tiers = [standard_monthly], customers = [john],
           orders = [order1], payments = [], order_status_history = [order_created],
           orders_id_seq = 2, customers_id_seq = 1\<rparr>"

definition capture0_data :: json where
  "capture0_data =
     JObject
       [(''id'', JString ''5O190127TN364715T''),
        (''status'', JString ''COMPLETED''),
        (''purchase_units'', JArray
           [JObject
              [(''reference_id'', JString ''SEO-20250131-0002''),
               (''payments'', JObject
                  [(''captures'', JArray
                      [JObject
                         [(''id'', JString ''3C679366HH908993F''),
                          (''status'', JString ''COMPLETED''),
                          (''amount'', JObject [(''currency_code'', JString ''USD''),
                                                (''value'', JString ''450.00'')])]])])]]),
        (''payer'', JObject [(''payer_id'', JString ''QYR5Z8XDVJNXQ'')])]"

definition capture0_stored :: json where
  "capture0_stored =
     JObject
       [(''id'', JString ''5O190127TN364715T''),
        (''payer'', JObject [(''payer_id'', JString ''QYR5Z8XDVJNXQ'')]),
        (''status'', JString ''COMPLETED''),
        (''purchase_units'', JArray
           [JObject
              [(''payments'', JObject
                  [(''captures'', JArray
                      [JObject
                         [(''id'', JString ''3C679366HH908993F''),
                          (''amount'', JObject [(''value'', JString ''450.00''),
                                                (''currency_code'', JString ''USD'')]),
                          (''status'', JString ''COMPLETED'')]])]),
               (''reference_id'', JString ''SEO-20250131-0002'')]])]"

definition capture0 :: paypal_order where
  "capture0 =
     \<lparr>pp_id = Some ''5O190127TN364715T'', pp_payer_id = Some ''QYR5Z8XDVJNXQ'',
      pp_purchase_unit =
        Some \<lparr>pu_capture_amount =
                Some \<lparr>pa_value = Some (Decimal 450), pa_currency_code = Some ''USD''\<rparr>,
              pu_amount = None\<rparr>,
      pp_data = capture0_data\<rparr>"

definition gateway0 :: "string \<Rightarrow> paypal_order option" where
  "gateway0 paypal_id = (if paypal_id = ''5O190127TN364715T'' then Some capture0 else None)"

definition capture_req0 :: capture_request where
  "capture_req0 = \<lparr>cr_paypalOrderId = ''5O190127TN364715T'', cr_orderId = 1\<rparr>"

definition exact_decimal :: "rat \<Rightarrow> rat" where
  "exact_decimal d = d"

definition capture_short :: paypal_order where
  "capture_short =
     capture0\<lparr>pp_purchase_unit :=
       Some \<lparr>pu_capture_amount =
               Some \<lparr>pa_value = Some (Decimal (44950 / 100)), pa_currency_code = Some ''USD''\<rparr>,
             pu_amount = None\<rparr>\<rparr>"

definition gateway_short :: "string \<Rightarrow> paypal_order option" where
  "gateway_short paypal_id = Some capture_short"

definition db_completed :: database where
  "db_completed = db0\<lparr>orders := [order1\<lparr>o_status := Completed, o_payment_status := Paid\<rparr>]\<rparr>"

definition payment1 :: payment where
  "payment1 =
     \<lparr>p_order_id = 1, p_payment_method = Paypal, p_payment_id = Some ''5O190127TN364715T'',
      p_payer_id = Some ''QYR5Z8XDVJNXQ'', p_amount = Numeric 45000, p_currency = Some ''USD'',
      p_status = Paid, p_gateway_response = Some capture0_stored\<rparr>"

definition status_auto :: "order_status \<Rightarrow> status_history" where
  "status_auto st = \<lparr>h_order_id = 1, h_status = st,
                     h_notes = Some ''Status changed automatically'', h_changed_by = None\<rparr>"

definition payment_received :: status_history where
  "payment_received = \<lparr>h_order_id = 1, h_status = Confirmed,
                        h_notes = Some ''Payment received and confirmed'', h_changed_by = None\<rparr>"

definition db_paid :: database where
  "db_paid = db0\<lparr>orders := [order1\<lparr>o_payment_status := Paid, o_status := Confirmed\<rparr>],
                 payments := [payment1],
                 order_status_history := [order_created, status_auto Confirmed, payment_received]\<rparr>"

definition status_req0 :: status_update_request where
  "status_req0 = \<lparr>su_id = 1, su_status = ''in_progress'', su_notes = None, su_admin_id = 7\<rparr>"

definition denied0_data :: json where
  "denied0_data = JObject [(''id'', JString ''5O190127TN364715T''), (''status'', JString ''DECLINED'')]"

definition denied0 :: webhook_event where
  "denied0 = \<lparr>event_type = ''PAYMENT.CAPTURE.DENIED'',
              resource = Some \<lparr>wr_id = Some ''5O190127TN364715T'', wr_data = denied0_data\<rparr>\<rparr>"

definition feb1 :: date where
  "feb1 = \<lparr>year = 2025, month = 2, day = 1\<rparr>"

definition order2 :: order_row where
  "order2 = order1\<lparr>o_id := 3, o_tracking_id := ''SEO-20250201-0004'', o_total_amount := 45000\<rparr>"

text \<open>
  An order whose total is 100.00 and a capture of 100.01, one hundredth more.
\<close>

definition order_100 :: order_row where
  "order_100 = order1\<lparr>o_service_price := 10000, o_total_amount := 10000\<rparr>"

definition db_100 :: database where
  "db_100 = db0\<lparr>orders := [order_100]\<rparr>"

definition capture_10001 :: paypal_order where
  "capture_10001 =
     capture0\<lparr>pp_purchase_unit :=
       Some \<lparr>pu_capture_amount =
               Some \<lparr>pa_value = Some (Decimal (10001 / 100)), pa_currency_code = Some ''USD''\<rparr>,
             pu_amount = None\<rparr>\<rparr>"

definition gateway_10001 :: "string \<Rightarrow> paypal_order option" where
  "gateway_10001 paypal_id = Some capture_10001"

text \<open>
  A catalog with a tier whose id is written as an integer, priced 99.99, and a request
  for three of it that passes the validators of \<open>POST /create\<close>; \<open>validator0\<close> agrees
  with validator.js on the email and the URL of that request.
\<close>

definition tier_7 :: service_tier where
  "tier_7 = standard_monthly\<lparr>st_id := ''7'', st_price := 9999\<rparr>"

definition db_9999 :: database where
  "db_9999 = db0\<lparr>service_tiers := [standard_monthly, tier_7]\<rparr>"

definition validator0 :: validator_js where
  "validator0 =
     \<lparr>isEmail = (\<lambda>s. s = ''john.smith@example.com''),
      normalizeEmail = (\<lambda>s. s),
      isURL = (\<lambda>require_protocol s. s = ''https://johnsmith.com'')\<rparr>"

definition create_req0 :: create_request where
  "create_req0 =
     \<lparr>rq_body =
        \<lparr>cart = Some [\<lparr>ci_serviceId = ''7'', ci_quantity = Some 3, ci_keywords = None\<rparr>],
         customer_in = Some \<lparr>cu_name = ''John Smith'', cu_email = ''john.smith@example.com'',
                             cu_website = ''https://johnsmith.com'', cu_phone = []\<rparr>\<rparr>,
      rq_customerName = ''John Smith'', rq_customerEmail = ''john.smith@example.com'',
      rq_website = ''https://johnsmith.com'', rq_keywords = ''seo audit'',
      rq_serviceId = ''7'', rq_quantity = Some 3\<rparr>"

section \<open>The tracking code in the specification's words\<close>

text \<open>
  The specification describes the suffix of a tracking code as a sequence number that is
  counted per calendar day and zero-padded to at least four digits. This definition
  follows those words (\<open>n\<close> is the number of the order within its day); it is compared
  with \<open>generate_tracking_id\<close> below and is no part of the model of the code.
\<close>

definition per_day_tracking_code :: "date \<Rightarrow> nat \<Rightarrow> string" where
  "per_day_tracking_code d n = ''SEO-'' @ to_char_YYYYMMDD d @ ''-'' @ zero_pad 4 n"

section \<open>Binary64 rounding: exponent and error bound\<close>

lemma pow2_powi: "pow2 k = 2 powi k"
  by (simp add: pow2_def power_int_def field_simps)

lemma pow2_pos: "0 < pow2 k"
  by (simp add: pow2_powi)

lemma pow2_add: "pow2 (a + b) = pow2 a * pow2 b"
  by (simp add: pow2_powi power_int_add)

lemma pow2_mono: "a \<le> b \<Longrightarrow> pow2 a \<le> pow2 b"
  by (simp add: pow2_powi power_int_increasing)

lemma pow2_strict_mono: "a < b \<Longrightarrow> pow2 a < pow2 b"
  by (simp add: pow2_powi power_int_strict_increasing)

lemma pow2_nat: "pow2 (int n) = 2 ^ n"
  by (simp add: pow2_def)

lemma bitlen_pow2_bounds:
  assumes "0 < p"
  shows "pow2 (bitlen p - 1) \<le> of_int p" "of_int p < pow2 (bitlen p)"
proof -
  from assms have b1: "1 \<le> bitlen p" by (simp add: bitlen_alt_def)
  from bitlen_bounds [OF assms]
  have lo: "2 ^ nat (bitlen p - 1) \<le> p" and hi: "p < 2 ^ nat (bitlen p)" by auto
  have "(of_int (2 ^ nat (bitlen p - 1)) :: rat) \<le> of_int p"
    using lo of_int_le_iff by blast
  then show "pow2 (bitlen p - 1) \<le> of_int p"
    using b1 by (simp add: pow2_def)
  have "(of_int p :: rat) < of_int (2 ^ nat (bitlen p))"
    using hi of_int_less_iff by blast
  then show "of_int p < pow2 (bitlen p)"
    using b1 by (simp add: pow2_def)
qed

lemma exponent_bounds:
  assumes "0 < x"
  shows "pow2 (exponent x) \<le> x \<and> x < pow2 (exponent x + 1)"
proof -
  obtain p q where pq: "quotient_of x = (p, q)" by (cases "quotient_of x")
  have q: "0 < q" using pq by (rule quotient_of_denom_pos)
  have x: "x = of_int p / of_int q" using pq by (rule quotient_of_div)
  have p: "0 < p" using assms q x by (simp add: zero_less_divide_iff)
  note bp = bitlen_pow2_bounds [OF p] and bq = bitlen_pow2_bounds [OF q]
  let ?e0 = "bitlen p - bitlen q"
  have qpos: "(0::rat) < of_int q" using q by simp
  have up: "x < pow2 (?e0 + 1)"
  proof -
    have "of_int p < pow2 (bitlen p)" by (rule bp)
    also have "\<dots> = pow2 (?e0 + 1) * pow2 (bitlen q - 1)"
      by (simp add: pow2_add [symmetric])
    also have "\<dots> \<le> pow2 (?e0 + 1) * of_int q"
      using bq(1) pow2_pos [of "?e0 + 1"] by (simp add: mult_left_mono)
    finally show ?thesis using qpos by (simp add: x pos_divide_less_eq)
  qed
  have lo: "pow2 (?e0 - 1) < x"
  proof -
    have "pow2 (?e0 - 1) * of_int q < pow2 (?e0 - 1) * pow2 (bitlen q)"
      using bq(2) pow2_pos [of "?e0 - 1"] by (simp add: mult_strict_left_mono)
    also have "\<dots> = pow2 (bitlen p - 1)"
      by (simp add: pow2_add [symmetric])
    also have "\<dots> \<le> of_int p" by (rule bp)
    finally show ?thesis using qpos by (simp add: x pos_less_divide_eq)
  qed
  show ?thesis
  proof (cases "pow2 ?e0 \<le> x")
    case True
    then have "exponent x = ?e0" by (simp add: exponent_def pq)
    with True up show ?thesis by simp
  next
    case False
    then have "exponent x = ?e0 - 1" by (simp add: exponent_def pq)
    with False lo show ?thesis by simp
  qed
qed

lemma exponent_unique:
  assumes "pow2 e \<le> x" "x < pow2 (e + 1)"
  shows "exponent x = e"
proof -
  have "0 < x" using assms(1) pow2_pos [of e] by simp
  from exponent_bounds [OF this]
  have b: "pow2 (exponent x) \<le> x" "x < pow2 (exponent x + 1)" by auto
  have "\<not> exponent x < e"
  proof
    assume "exponent x < e"
    then have "pow2 (exponent x + 1) \<le> pow2 e" by (simp add: pow2_mono)
    with b(2) assms(1) show False by simp
  qed
  moreover have "\<not> e < exponent x"
  proof
    assume "e < exponent x"
    then have "pow2 (e + 1) \<le> pow2 (exponent x)" by (simp add: pow2_mono)
    with b(1) assms(2) show False by simp
  qed
  ultimately show ?thesis by simp
qed

lemma round_ties_even_error: "\<bar>of_int (round_ties_even y) - y\<bar> \<le> 1 / 2"
proof -
  have "of_int \<lfloor>y\<rfloor> \<le> y" "y < of_int \<lfloor>y\<rfloor> + 1" by linarith+
  then show ?thesis
    by (auto simp: round_ties_even_def Let_def abs_le_iff)
qed

lemma round_ties_even_nonneg: "0 \<le> y \<Longrightarrow> 0 \<le> round_ties_even y"
  by (auto simp: round_ties_even_def Let_def)

lemma fl_zero: "fl 0 = 0"
  by (simp add: fl_def)

lemma fl_error: "\<bar>fl x - x\<bar> \<le> \<bar>x\<bar> / 2 ^ 53"
proof (cases "x = 0")
  case True
  then show ?thesis by (simp add: fl_def)
next
  case False
  define e where "e = exponent \<bar>x\<bar>"
  define u where "u = pow2 (e - 52)"
  define m where "m = round_ties_even (\<bar>x\<bar> / u)"
  have upos: "0 < u" by (simp add: u_def pow2_pos)
  have ax: "0 < \<bar>x\<bar>" using False by simp
  have fx: "fl x = sgn x * of_int m * u"
    using False by (simp add: fl_def Let_def e_def u_def m_def)
  have sx: "sgn x * \<bar>x\<bar> = x" by (rule sgn_mult_abs)
  have "fl x - x = sgn x * (of_int m * u) - sgn x * \<bar>x\<bar>"
    by (simp add: fx sx mult.assoc)
  then have "fl x - x = sgn x * (of_int m * u - \<bar>x\<bar>)"
    by (simp add: right_diff_distrib)
  then have "\<bar>fl x - x\<bar> = \<bar>of_int m * u - \<bar>x\<bar>\<bar>"
    using False by (simp add: abs_mult abs_sgn_eq)
  also have "of_int m * u - \<bar>x\<bar> = (of_int m - \<bar>x\<bar> / u) * u"
    using upos by (simp add: algebra_simps)
  also have "\<bar>\<dots>\<bar> = \<bar>of_int m - \<bar>x\<bar> / u\<bar> * u"
    using upos by (simp add: abs_mult)
  also have "\<dots> \<le> (1 / 2) * u"
    using round_ties_even_error [of "\<bar>x\<bar> / u"] upos
    unfolding m_def by (intro mult_right_mono) auto
  also have "(1 / 2) * u = pow2 e / 2 ^ 53"
  proof -
    have "pow2 e = pow2 (e - 52) * pow2 52" by (simp add: pow2_add [symmetric])
    then show ?thesis by (simp add: u_def pow2_def)
  qed
  also have "\<dots> \<le> \<bar>x\<bar> / 2 ^ 53"
    using exponent_bounds [OF ax] by (simp add: e_def divide_right_mono)
  finally show ?thesis .
qed

lemma fl_eqI:
  assumes "pow2 e \<le> \<bar>x\<bar>" "\<bar>x\<bar> < pow2 (e + 1)"
  shows "fl x = sgn x * of_int (round_ties_even (\<bar>x\<bar> / pow2 (e - 52))) * pow2 (e - 52)"
proof -
  have "x \<noteq> 0" using assms(1) pow2_pos [of e] by auto
  moreover have "exponent \<bar>x\<bar> = e" using assms by (rule exponent_unique)
  ultimately show ?thesis by (simp add: fl_def Let_def)
qed

lemma fl_nonneg: "0 \<le> x \<Longrightarrow> 0 \<le> fl x"
  by (auto simp: fl_def Let_def sgn_if intro!: mult_nonneg_nonneg round_ties_even_nonneg
      divide_nonneg_pos pow2_pos less_imp_le [OF pow2_pos])

lemma round_ties_even_eqI:
  assumes "of_int m - 1 / 2 < y" "y < of_int m + 1 / 2"
  shows "round_ties_even y = m"
proof (cases "of_int m \<le> y")
  case True
  then have f: "\<lfloor>y\<rfloor> = m" using assms(2) by (intro floor_unique) auto
  show ?thesis using assms(2) by (simp add: round_ties_even_def Let_def f)
next
  case False
  then have f: "\<lfloor>y\<rfloor> = m - 1" using assms(1) by (intro floor_unique) auto
  show ?thesis using assms(1) by (simp add: round_ties_even_def Let_def f)
qed

lemma fl_eqI2:
  assumes "pow2 e \<le> \<bar>x\<bar>" "\<bar>x\<bar> < pow2 (e + 1)"
    and "of_int m - 1 / 2 < \<bar>x\<bar> / pow2 (e - 52)" "\<bar>x\<bar> / pow2 (e - 52) < of_int m + 1 / 2"
  shows "fl x = sgn x * of_int m * pow2 (e - 52)"
  using fl_eqI [OF assms(1,2)] round_ties_even_eqI [OF assms(3,4)] by simp

text \<open>
  Two checks of \<open>fl\<close> against round-to-nearest: no multiple of the unit in the last
  place of \<open>x\<close> is nearer to \<open>x\<close> than \<open>fl x\<close>, and a number with a 53-bit significand
  is its own rounding.
\<close>

lemma nearer_floor:
  fixes F M Y :: rat
  assumes "F \<le> Y" "M \<le> F \<or> F + 1 \<le> M" "Y - F \<le> 1 / 2"
  shows "\<bar>F - Y\<bar> \<le> \<bar>M - Y\<bar>"
  using assms by (auto simp: abs_if)

lemma nearer_ceiling:
  fixes F M Y :: rat
  assumes "Y < F + 1" "M \<le> F \<or> F + 1 \<le> M" "1 / 2 \<le> Y - F"
  shows "\<bar>F + 1 - Y\<bar> \<le> \<bar>M - Y\<bar>"
  using assms by (auto simp: abs_if)

lemma round_ties_even_nearest: "\<bar>of_int (round_ties_even y) - y\<bar> \<le> \<bar>of_int m - y\<bar>"
proof -
  have f: "of_int \<lfloor>y\<rfloor> \<le> y" "y < of_int \<lfloor>y\<rfloor> + 1" by linarith+
  have "m \<le> \<lfloor>y\<rfloor> \<or> \<lfloor>y\<rfloor> + 1 \<le> m" by linarith
  then have m: "(of_int m :: rat) \<le> of_int \<lfloor>y\<rfloor> \<or> (of_int \<lfloor>y\<rfloor> :: rat) + 1 \<le> of_int m"
    by (metis of_int_1 of_int_add of_int_le_iff)
  define r where "r = y - of_int \<lfloor>y\<rfloor>"
  have rte: "round_ties_even y =
      (if r < 1 / 2 then \<lfloor>y\<rfloor> else if 1 / 2 < r then \<lfloor>y\<rfloor> + 1
       else if even \<lfloor>y\<rfloor> then \<lfloor>y\<rfloor> else \<lfloor>y\<rfloor> + 1)"
    unfolding round_ties_even_def Let_def r_def ..
  have "round_ties_even y = \<lfloor>y\<rfloor> \<and> r \<le> 1 / 2 \<or>
        round_ties_even y = \<lfloor>y\<rfloor> + 1 \<and> 1 / 2 \<le> r"
    unfolding rte by (cases "r < 1 / 2"; cases "1 / 2 < r"; cases "even \<lfloor>y\<rfloor>") simp_all
  then show ?thesis
  proof
    assume "round_ties_even y = \<lfloor>y\<rfloor> \<and> r \<le> 1 / 2"
    with nearer_floor [OF f(1) m] show ?thesis by (simp add: r_def)
  next
    assume "round_ties_even y = \<lfloor>y\<rfloor> + 1 \<and> 1 / 2 \<le> r"
    with nearer_ceiling [OF f(2) m] show ?thesis by (simp add: r_def)
  qed
qed

lemma round_ties_even_of_int: "round_ties_even (of_int n) = n"
  by (simp add: round_ties_even_def)

lemma round_ties_even_abs_of_int: "round_ties_even \<bar>of_int n\<bar> = \<bar>n\<bar>"
  by (metis of_int_abs round_ties_even_of_int)

lemma fl_nearest_on_grid:
  assumes "x \<noteq> 0"
  shows "\<bar>fl x - x\<bar> \<le> \<bar>of_int m * pow2 (exponent \<bar>x\<bar> - 52) - x\<bar>"
proof -
  define u where "u = pow2 (exponent \<bar>x\<bar> - 52)"
  define y where "y = \<bar>x\<bar> / u"
  have upos: "0 < u" by (simp add: u_def pow2_pos)
  have x: "x = sgn x * y * u" using upos by (simp add: y_def sgn_mult_abs)
  have s: "sgn x * sgn x = 1" using assms by (simp add: sgn_if)
  have fx: "fl x = sgn x * of_int (round_ties_even y) * u"
    using assms by (simp add: fl_def Let_def u_def y_def)
  have "fl x - x = sgn x * (of_int (round_ties_even y) - y) * u"
    by (subst (2) x) (simp add: fx algebra_simps)
  then have l: "\<bar>fl x - x\<bar> = \<bar>of_int (round_ties_even y) - y\<bar> * u"
    using upos assms by (simp add: abs_mult abs_sgn_eq)
  define m' where "m' = (if 0 < x then m else - m)"
  have sm: "(of_int m' :: rat) = sgn x * of_int m" using assms by (simp add: m'_def sgn_if)
  have "of_int m * u - x = sgn x * (of_int m' - y) * u"
  proof -
    have "sgn x * (of_int m' - y) * u = (sgn x * sgn x) * of_int m * u - sgn x * y * u"
      by (simp add: sm algebra_simps)
    then show ?thesis using x s by simp
  qed
  then have r: "\<bar>of_int m * u - x\<bar> = \<bar>of_int m' - y\<bar> * u"
    using upos assms by (simp add: abs_mult abs_sgn_eq)
  have "\<bar>of_int (round_ties_even y) - y\<bar> \<le> \<bar>of_int m' - y\<bar>"
    by (rule round_ties_even_nearest)
  then show ?thesis
    unfolding l r u_def [symmetric] using upos by (simp add: mult_right_mono)
qed

lemma fl_double:
  assumes "2 ^ 52 \<le> \<bar>m\<bar>" "\<bar>m\<bar> < 2 ^ 53"
  shows "fl (of_int m * pow2 k) = of_int m * pow2 k"
proof -
  let ?x = "of_int m * pow2 k :: rat"
  have m0: "m \<noteq> 0" using assms(1) by auto
  have ax: "\<bar>?x\<bar> = of_int \<bar>m\<bar> * pow2 k"
    using pow2_pos [of k] by (simp add: abs_mult)
  have lo: "pow2 (52 + k) \<le> \<bar>?x\<bar>"
  proof -
    have "(2 :: rat) ^ 52 \<le> of_int \<bar>m\<bar>"
      using assms(1) by (metis of_int_le_iff of_int_numeral of_int_power)
    then have "pow2 52 * pow2 k \<le> of_int \<bar>m\<bar> * pow2 k"
      using pow2_pos [of k] by (simp add: pow2_def)
    then show ?thesis by (simp add: ax pow2_add)
  qed
  have hi: "\<bar>?x\<bar> < pow2 (52 + k + 1)"
  proof -
    have "(of_int \<bar>m\<bar> :: rat) < 2 ^ 53"
      using assms(2) by (metis of_int_less_iff of_int_numeral of_int_power)
    then have "of_int \<bar>m\<bar> * pow2 k < pow2 53 * pow2 k"
      using pow2_pos [of k] by (simp add: pow2_def)
    then show ?thesis by (simp add: ax pow2_add [symmetric] add.commute)
  qed
  have "\<bar>?x\<bar> / pow2 (52 + k - 52) = of_int \<bar>m\<bar>"
    using pow2_pos [of k] by (simp add: ax)
  with fl_eqI [OF lo hi] have "fl ?x = sgn ?x * of_int \<bar>m\<bar> * pow2 k"
    by (simp add: round_ties_even_abs_of_int)
  also have "sgn ?x = sgn (of_int m)"
    using pow2_pos [of k] by (simp add: sgn_mult)
  also have "sgn (of_int m :: rat) * of_int \<bar>m\<bar> = of_int m"
    by (metis of_int_abs sgn_mult_abs)
  finally show ?thesis .
qed

lemma fl_450: "fl 450 = 450"
  using fl_eqI2 [of 8 450 "450 * 2 ^ 44"] by (simp add: pow2_def)

lemma fl_hundredth: "fl (1 / 100) = 5764607523034235 / 576460752303423488"
  using fl_eqI2 [of "-7" "1 / 100" 5764607523034235] by (simp add: pow2_def)


lemma numeric_10_2_near:
  assumes "\<bar>s * 100 - of_int n\<bar> < 1 / 2"
  shows "numeric_10_2 s = (if \<bar>n\<bar> < 10 ^ 10 then Some n else None)"
proof (cases "0 \<le> s")
  case True
  have "\<lfloor>s * 100 + 1 / 2\<rfloor> = n" using assms by (intro floor_unique) linarith+
  then show ?thesis using True by (simp add: numeric_10_2_def)
next
  case False
  have "\<lfloor>- s * 100 + 1 / 2\<rfloor> = - n"
    using assms by (intro floor_unique) (simp_all add: abs_if split: if_splits)
  then show ?thesis using False by (simp add: numeric_10_2_def)
qed

lemma reads_back_close:
  assumes "reads_back toString d"
  shows "\<bar>toString d - d\<bar> \<le> \<bar>d\<bar> / 2 ^ 52"
proof -
  let ?s = "toString d"
  have "\<bar>d - ?s\<bar> \<le> \<bar>?s\<bar> / 2 ^ 53"
    using fl_error [of ?s] assms by (simp add: reads_back_def)
  then show ?thesis by (simp add: abs_if split: if_splits)
qed

lemma scale_hundred:
  fixes s v :: rat
  assumes "\<bar>s - v\<bar> < 1 / 200"
  shows "\<bar>s * 100 - v * 100\<bar> < 1 / 2"
  using assms by (simp add: abs_if split: if_splits)

lemma stored_parseFloat:
  assumes "\<bar>a\<bar> < 10 ^ 10" "reads_back toString (parseFloat a)"
  shows "numeric_10_2 (toString (parseFloat a)) = Some a"
proof -
  let ?x = "of_int a / 100 :: rat"
  let ?d = "parseFloat a"
  let ?s = "toString ?d"
  have "\<bar>(of_int a :: rat)\<bar> < 10 ^ 10"
    using assms(1) by (metis of_int_abs of_int_less_iff of_int_numeral of_int_power)
  then have x: "\<bar>?x\<bar> < 10 ^ 8" by simp
  have d: "\<bar>?d - ?x\<bar> \<le> \<bar>?x\<bar> / 2 ^ 53"
    unfolding parseFloat_def by (rule fl_error)
  have s: "\<bar>?s - ?d\<bar> \<le> \<bar>?d\<bar> / 2 ^ 52"
    using assms(2) by (rule reads_back_close)
  have "\<bar>?s - ?x\<bar> < 1 / 200"
    using x d s by (simp add: abs_if split: if_splits)
  then have "\<bar>?s * 100 - ?x * 100\<bar> < 1 / 2" by (rule scale_hundred)
  then have "\<bar>?s * 100 - of_int a\<bar> < 1 / 2" by simp
  from numeric_10_2_near [OF this] assms(1) show ?thesis by simp
qed


lemma of_int_abs_less_numeral:
  "\<bar>a\<bar> < 10 ^ 10 \<Longrightarrow> \<bar>(of_int a :: rat)\<bar> < 10 ^ 10"
  by (metis of_int_abs of_int_less_iff of_int_numeral of_int_power)

lemma amount_mismatch_same: "\<not> amount_mismatch (Number (parseFloat t)) t"
  using fl_nonneg [of "1 / 100"] by (simp add: amount_mismatch_def fl_zero)


lemma rounding_chain:
  fixes u v d s :: rat
  assumes "\<bar>u - v\<bar> \<le> 10 ^ 10 / 2 ^ 53" "\<bar>v\<bar> \<le> 10 ^ 10"
    and "\<bar>d - u\<bar> \<le> \<bar>u\<bar> / 2 ^ 53" "\<bar>s - d\<bar> \<le> \<bar>d\<bar> / 2 ^ 52"
  shows "\<bar>s - v\<bar> < 1 / 200"
  using assms by (simp add: abs_if split: if_splits)

lemma stored_total_amount:
  assumes "\<bar>p\<bar> < 10 ^ 10" "\<bar>q\<bar> \<le> 100" "reads_back toString (total_amount p q)"
  shows "numeric_10_2 (toString (total_amount p q)) =
           (if \<bar>p * q\<bar> < 10 ^ 10 then Some (p * q) else None)"
proof -
  let ?x = "of_int p / 100 :: rat"
  let ?Q = "of_int q :: rat"
  let ?P = "parseFloat p"
  let ?d = "total_amount p q"
  let ?s = "toString ?d"
  have "\<bar>(of_int p :: rat)\<bar> < 10 ^ 10" using assms(1) by (rule of_int_abs_less_numeral)
  then have x: "\<bar>?x\<bar> < 10 ^ 8" by simp
  have Q: "\<bar>?Q\<bar> \<le> 100" using assms(2) by (metis of_int_abs of_int_le_iff of_int_numeral)
  have "\<bar>?P - ?x\<bar> \<le> \<bar>?x\<bar> / 2 ^ 53" unfolding parseFloat_def by (rule fl_error)
  with x have eP: "\<bar>?P - ?x\<bar> \<le> 10 ^ 8 / 2 ^ 53" by (simp add: abs_if split: if_splits)
  have "?P * ?Q - ?x * ?Q = (?P - ?x) * ?Q"
    by (simp only: left_diff_distrib)
  then have "\<bar>?P * ?Q - ?x * ?Q\<bar> = \<bar>?P - ?x\<bar> * \<bar>?Q\<bar>"
    by (simp only: abs_mult)
  also have "\<dots> \<le> (10 ^ 8 / 2 ^ 53) * 100"
    using eP Q by (intro mult_mono) auto
  finally have ePQ: "\<bar>?P * ?Q - ?x * ?Q\<bar> \<le> 10 ^ 10 / 2 ^ 53" by simp
  have "\<bar>?x * ?Q\<bar> = \<bar>?x\<bar> * \<bar>?Q\<bar>" by (simp add: abs_mult)
  also have "\<dots> \<le> 10 ^ 8 * 100"
    using x Q by (intro mult_mono) auto
  finally have xQ: "\<bar>?x * ?Q\<bar> \<le> 10 ^ 10" by simp
  have ed: "\<bar>?d - ?P * ?Q\<bar> \<le> \<bar>?P * ?Q\<bar> / 2 ^ 53"
    unfolding total_amount_def by (rule fl_error)
  have es: "\<bar>?s - ?d\<bar> \<le> \<bar>?d\<bar> / 2 ^ 52"
    using assms(3) by (rule reads_back_close)
  have "\<bar>?s - ?x * ?Q\<bar> < 1 / 200"
    using ePQ xQ ed es by (rule rounding_chain)
  then have "\<bar>?s * 100 - (?x * ?Q) * 100\<bar> < 1 / 2" by (rule scale_hundred)
  then have "\<bar>?s * 100 - of_int (p * q)\<bar> < 1 / 2" by simp
  from numeric_10_2_near [OF this] show ?thesis .
qed


section \<open>Lemmas on the statements and on the example data\<close>

lemma rollback_to_same: "rollback_to db db = db"
  by (simp add: rollback_to_def)

lemma parseFloat_45000: "parseFloat 45000 = 450"
  by (simp add: parseFloat_def fl_450)

lemma varchar_fits: "pg_text s \<Longrightarrow> length s \<le> n \<Longrightarrow> varchar n s = Some s"
  by (simp add: varchar_def)

lemma varchar_null_fits:
  "(\<forall>s. v = Some s \<longrightarrow> pg_text s \<and> length s \<le> n) \<Longrightarrow> varchar_null n v = Some v"
  by (cases v) (simp_all add: varchar_null_def varchar_fits)

lemma jsonb_capture0: "jsonb_in exact_decimal capture0_data = Some capture0_stored"
  by (simp add: jsonb_in_def capture0_data_def capture0_stored_def jsonb_object_def
      key_less_def utf8_def pg_text_def)

lemma capture0_stored_differs: "capture0_stored \<noteq> capture0_data"
  by (simp add: capture0_data_def capture0_stored_def)

lemma extract_capture0:
  "extractPaymentInfo capture0 =
     Some \<lparr>paypalOrderId = Some ''5O190127TN364715T'', payerId = Some ''QYR5Z8XDVJNXQ'',
           amount = Number 450, currency = Some ''USD''\<rparr>"
  by (simp add: extractPaymentInfo_def capture0_def parseFloat_amount_def fl_450)

lemma select_db0: "select_order_join_customer db0 1 = Some [(order1, john)]"
  by (simp add: select_order_join_customer_def int4_def db0_def order1_def john_def)

lemma capture_payment_mismatch_branch:
  assumes "select_order_join_customer db (cr_orderId req) = Some ((order, cust) # rest)"
    and "captureOrder (cr_paypalOrderId req) = Some captureResult"
    and "extractPaymentInfo captureResult = Some paymentInfo"
    and "amount_mismatch (amount paymentInfo) (o_total_amount order)"
  shows "capture_payment toString captureOrder req db =
           \<lparr>response = Response 400 ''Payment amount mismatch'', db_after = db,
            client_held = False\<rparr>"
  using assms by (simp add: capture_payment_def rollbackTransaction_def rollback_to_same)

lemma capture_payment_success_branch:
  assumes "select_order_join_customer db (cr_orderId req) = Some ((order, cust) # rest)"
    and "captureOrder (cr_paypalOrderId req) = Some captureResult"
    and "extractPaymentInfo captureResult = Some paymentInfo"
    and "\<not> amount_mismatch (amount paymentInfo) (o_total_amount order)"
    and "payment_row toString (cr_orderId req) (paypalOrderId paymentInfo) (payerId paymentInfo)
           (amount paymentInfo) (currency paymentInfo) Paid (Some (pp_data captureResult)) =
         Some p"
  shows "capture_payment toString captureOrder req db =
           \<lparr>response = Response 200 ''Payment captured successfully'',
            db_after =
              insert_status_history
                \<lparr>h_order_id = cr_orderId req, h_status = Confirmed,
                 h_notes = Some ''Payment received and confirmed'', h_changed_by = None\<rparr>
                (insert_payment p
                   (update_orders (\<lambda>row. row\<lparr>o_payment_status := Paid, o_status := Confirmed\<rparr>)
                      (cr_orderId req) db)),
            client_held = False\<rparr>"
  using assms by (simp add: capture_payment_def commitTransaction_def Let_def)

lemma orders_update_orders:
  "orders (update_orders set_cols oid db) =
     map (\<lambda>row. if o_id row = oid then set_cols row else row) (orders db)"
  by (simp add: update_orders_def)

lemma payments_update_orders: "payments (update_orders set_cols oid db) = payments db"
  by (simp add: update_orders_def)

lemma customers_update_orders: "customers (update_orders set_cols oid db) = customers db"
  by (simp add: update_orders_def)

lemma history_update_orders:
  "order_status_history (update_orders set_cols oid db) =
     order_status_history db @
     concat (map (\<lambda>row. add_status_history row (set_cols row))
                 (filter (\<lambda>row. o_id row = oid) (orders db)))"
proof -
  have "concat (map (\<lambda>row. if o_id row = oid then add_status_history row (set_cols row) else []) xs) =
        concat (map (\<lambda>row. add_status_history row (set_cols row)) (filter (\<lambda>row. o_id row = oid) xs))"
    for xs by (induction xs) auto
  then show ?thesis by (simp add: update_orders_def)
qed

lemma select_join_after_update:
  assumes "\<And>row. o_id (set_cols row) = o_id row"
    and "\<And>row. o_customer_id (set_cols row) = o_customer_id row"
    and "select_order_join_customer db k = Some rows"
  shows "select_order_join_customer (update_orders set_cols oid db) k =
           Some (map (\<lambda>(row, c). (if o_id row = oid then set_cols row else row, c)) rows)"
proof -
  have "concat (map (\<lambda>row. map (\<lambda>c. (row, c)) (filter (\<lambda>c. o_customer_id row = c_id c) cs))
                 (filter (\<lambda>row. o_id row = k)
                         (map (\<lambda>row. if o_id row = oid then set_cols row else row) xs))) =
        map (\<lambda>(row, c). (if o_id row = oid then set_cols row else row, c))
            (concat (map (\<lambda>row. map (\<lambda>c. (row, c)) (filter (\<lambda>c. o_customer_id row = c_id c) cs))
                         (filter (\<lambda>row. o_id row = k) xs)))"
    for xs cs by (induction xs) (auto simp: assms(1,2))
  with assms(3) show ?thesis
    by (auto simp: select_order_join_customer_def update_orders_def split: if_splits)
qed

lemma select_join_id:
  "select_order_join_customer db k = Some ((row, c) # rest) \<Longrightarrow> o_id row = k"
proof -
  assume a: "select_order_join_customer db k = Some ((row, c) # rest)"
  have "\<forall>rows. select_order_join_customer db k = Some rows \<longrightarrow>
          (\<forall>(r, c) \<in> set rows. o_id r = k)"
    by (auto simp: select_order_join_customer_def)
  with a show "o_id row = k" by auto
qed

lemma select_join_insert_payment [simp]:
  "select_order_join_customer (insert_payment p db) k = select_order_join_customer db k"
  by (simp add: select_order_join_customer_def insert_payment_def)

lemma select_join_insert_history [simp]:
  "select_order_join_customer (insert_status_history h db) k = select_order_join_customer db k"
  by (simp add: select_order_join_customer_def insert_status_history_def)

lemma history_update_orders_same_status:
  assumes "\<And>row. o_status row = st \<Longrightarrow> o_status (set_cols row) = st"
    and "\<forall>row \<in> set (orders db). o_id row = oid \<longrightarrow> o_status row = st"
  shows "order_status_history (update_orders set_cols oid db) = order_status_history db"
proof -
  have "concat (map (\<lambda>row. add_status_history row (set_cols row))
                    (filter (\<lambda>row. o_id row = oid) xs)) = []"
    if "\<forall>row \<in> set xs. o_id row = oid \<longrightarrow> o_status row = st" for xs
    using that by (induction xs) (auto simp: add_status_history_def assms(1))
  with assms(2) show ?thesis by (simp add: history_update_orders)
qed

lemma map_confirm_twice:
  "map (\<lambda>row. if o_id row = oid then row\<lparr>o_payment_status := Paid, o_status := Confirmed\<rparr> else row)
       (map (\<lambda>row. if o_id row = oid then row\<lparr>o_payment_status := Paid, o_status := Confirmed\<rparr>
                    else row) xs) =
   map (\<lambda>row. if o_id row = oid then row\<lparr>o_payment_status := Paid, o_status := Confirmed\<rparr> else row) xs"
  by (induction xs) auto

lemmas example_defs =
  db0_def order1_def john_def monthly_seo_def standard_monthly_def order_created_def
  capture0_def gateway0_def capture_req0_def exact_decimal_def capture_short_def
  gateway_short_def db_completed_def payment1_def status_auto_def payment_received_def
  db_paid_def

lemma reads_back_450: "reads_back exact_decimal 450"
  by (simp add: reads_back_def exact_decimal_def fl_450)

lemma numeric_450: "numeric_10_2 450 = Some 45000"
  using numeric_10_2_near [of 450 45000] by simp

lemma not_mismatch_450: "\<not> amount_mismatch (Number 450) 45000"
  using amount_mismatch_same [of 45000] by (simp add: parseFloat_45000)

lemma payment_row_capture0:
  "payment_row exact_decimal 1 (Some ''5O190127TN364715T'') (Some ''QYR5Z8XDVJNXQ'')
     (Number 450) (Some ''USD'') Paid (Some capture0_data) = Some payment1"
  by (simp add: payment_row_def varchar_null_def varchar_def pg_text_def numeric_param_def
      exact_decimal_def numeric_450 payment1_def)
     (simp add: jsonb_capture0 [unfolded exact_decimal_def [abs_def]] exact_decimal_def [abs_def])

lemma capture_db0:
  "capture_payment exact_decimal gateway0 capture_req0 db0 =
     \<lparr>response = Response 200 ''Payment captured successfully'', db_after = db_paid,
      client_held = False\<rparr>"
proof -
  have sel: "select_order_join_customer db0 (cr_orderId capture_req0) =
               Some ((order1, john) # [])"
    using select_db0 by (simp add: capture_req0_def)
  have gw: "gateway0 (cr_paypalOrderId capture_req0) = Some capture0"
    by (simp add: gateway0_def capture_req0_def)
  have nm: "\<not> amount_mismatch
              (amount \<lparr>paypalOrderId = Some ''5O190127TN364715T'',
                       payerId = Some ''QYR5Z8XDVJNXQ'', amount = Number 450,
                       currency = Some ''USD''\<rparr>) (o_total_amount order1)"
    by (simp add: not_mismatch_450 order1_def)
  have row: "payment_row exact_decimal (cr_orderId capture_req0)
      (paypalOrderId \<lparr>paypalOrderId = Some ''5O190127TN364715T'',
                       payerId = Some ''QYR5Z8XDVJNXQ'', amount = Number 450,
                       currency = Some ''USD''\<rparr>)
      (payerId \<lparr>paypalOrderId = Some ''5O190127TN364715T'',
                       payerId = Some ''QYR5Z8XDVJNXQ'', amount = Number 450,
                       currency = Some ''USD''\<rparr>)
      (amount \<lparr>paypalOrderId = Some ''5O190127TN364715T'',
                       payerId = Some ''QYR5Z8XDVJNXQ'', amount = Number 450,
                       currency = Some ''USD''\<rparr>)
      (currency \<lparr>paypalOrderId = Some ''5O190127TN364715T'',
                       payerId = Some ''QYR5Z8XDVJNXQ'', amount = Number 450,
                       currency = Some ''USD''\<rparr>) Paid (Some (pp_data capture0)) = Some payment1"
    using payment_row_capture0 by (simp add: capture_req0_def capture0_def)
  note branch = capture_payment_success_branch
      [of db0 capture_req0 order1 john "[]" gateway0 capture0
          "\<lparr>paypalOrderId = Some ''5O190127TN364715T'', payerId = Some ''QYR5Z8XDVJNXQ'',
            amount = Number 450, currency = Some ''USD''\<rparr>" exact_decimal payment1,
        OF sel gw extract_capture0 nm row]
  show ?thesis
    unfolding branch
    by (simp add: update_orders_def add_status_history_def insert_payment_def
        insert_status_history_def db_paid_def db0_def order1_def capture_req0_def
        status_auto_def payment_received_def)
qed

lemma select_db_paid:
  "select_order_join_customer db_paid 1 =
     Some [(order1\<lparr>o_payment_status := Paid, o_status := Confirmed\<rparr>, john)]"
  by (simp add: select_order_join_customer_def int4_def db_paid_def db0_def order1_def john_def)

lemma capture_db_paid:
  "capture_payment exact_decimal gateway0 capture_req0 db_paid =
     \<lparr>response = Response 200 ''Payment captured successfully'',
      db_after = db_paid\<lparr>payments := [payment1, payment1],
                   order_status_history := [order_created, status_auto Confirmed,
                                            payment_received, payment_received]\<rparr>,
      client_held = False\<rparr>"
proof -
  have sel: "select_order_join_customer db_paid (cr_orderId capture_req0) =
               Some ((order1\<lparr>o_payment_status := Paid, o_status := Confirmed\<rparr>, john) # [])"
    using select_db_paid by (simp add: capture_req0_def)
  have gw: "gateway0 (cr_paypalOrderId capture_req0) = Some capture0"
    by (simp add: gateway0_def capture_req0_def)
  have nm: "\<not> amount_mismatch
              (amount \<lparr>paypalOrderId = Some ''5O190127TN364715T'',
                       payerId = Some ''QYR5Z8XDVJNXQ'', amount = Number 450,
                       currency = Some ''USD''\<rparr>)
              (o_total_amount (order1\<lparr>o_payment_status := Paid, o_status := Confirmed\<rparr>))"
    by (simp add: not_mismatch_450 order1_def)
  have row: "payment_row exact_decimal (cr_orderId capture_req0)
      (paypalOrderId \<lparr>paypalOrderId = Some ''5O190127TN364715T'',
                       payerId = Some ''QYR5Z8XDVJNXQ'', amount = Number 450,
                       currency = Some ''USD''\<rparr>)
      (payerId \<lparr>paypalOrderId = Some ''5O190127TN364715T'',
                       payerId = Some ''QYR5Z8XDVJNXQ'', amount = Number 450,
                       currency = Some ''USD''\<rparr>)
      (amount \<lparr>paypalOrderId = Some ''5O190127TN364715T'',
                       payerId = Some ''QYR5Z8XDVJNXQ'', amount = Number 450,
                       currency = Some ''USD''\<rparr>)
      (currency \<lparr>paypalOrderId = Some ''5O190127TN364715T'',
                       payerId = Some ''QYR5Z8XDVJNXQ'', amount = Number 450,
                       currency = Some ''USD''\<rparr>) Paid (Some (pp_data capture0)) = Some payment1"
    using payment_row_capture0 by (simp add: capture_req0_def capture0_def)
  note branch = capture_payment_success_branch
      [of db_paid capture_req0 "order1\<lparr>o_payment_status := Paid, o_status := Confirmed\<rparr>"
          john "[]" gateway0 capture0
          "\<lparr>paypalOrderId = Some ''5O190127TN364715T'', payerId = Some ''QYR5Z8XDVJNXQ'',
            amount = Number 450, currency = Some ''USD''\<rparr>" exact_decimal payment1,
        OF sel gw extract_capture0 nm row]
  show ?thesis
    unfolding branch
    by (simp add: update_orders_def add_status_history_def insert_payment_def
        insert_status_history_def db_paid_def db0_def order1_def capture_req0_def
        status_auto_def payment_received_def)
qed

lemma rollback_to_update_orders: "rollback_to db (update_orders set_cols oid db) = db"
  by (simp add: rollback_to_def update_orders_def)

lemma capture_payment_all_or_nothing:
  "response (capture_payment toString captureOrder req db) \<noteq>
     Response 200 ''Payment captured successfully'' \<Longrightarrow>
   db_after (capture_payment toString captureOrder req db) = db"
  by (auto simp: capture_payment_def rollbackTransaction_def commitTransaction_def
      rollback_to_same rollback_to_update_orders Let_def
      split: list.splits option.splits prod.splits if_splits)

lemma payment_row_fits:
  assumes "\<forall>s. pid = Some s \<longrightarrow> pg_text s \<and> length s \<le> 255"
    and "\<forall>s. payer = Some s \<longrightarrow> pg_text s \<and> length s \<le> 255"
    and "numeric_param toString amt = Some stored"
    and "\<forall>s. cur = Some s \<longrightarrow> pg_text s \<and> length s \<le> 3"
    and "jsonb_accepts data"
  shows "payment_row toString oid pid payer amt cur st (Some data) =
           Some \<lparr>p_order_id = oid, p_payment_method = Paypal, p_payment_id = pid,
                 p_payer_id = payer, p_amount = stored, p_currency = cur, p_status = st,
                 p_gateway_response = Some (jsonb toString data)\<rparr>"
  using assms by (simp add: payment_row_def varchar_null_fits jsonb_in_def)

lemma parseFloat_10001: "parseFloat 10001 = 7037578105208177 / 70368744177664"
  using fl_eqI2 [of 6 "10001 / 100" 7037578105208177]
  by (simp add: parseFloat_def pow2_def)

lemma parseFloat_10000: "parseFloat 10000 = 100"
  using fl_eqI2 [of 6 100 "100 * 2 ^ 46"]
  by (simp add: parseFloat_def pow2_def)

lemma parseFloat_45001: "parseFloat 45001 = 1979164910461911 / 4398046511104"
  using fl_eqI2 [of 8 "45001 / 100" 7916659641847644]
  by (simp add: parseFloat_def pow2_def)

text \<open>
  At a distance of exactly one hundredth the handler's test depends on how the two
  amounts round: 450.01 against a total of 450.00 passes, 100.01 against 100.00 is a
  mismatch (\<open>100.01 - 100\<close> is \<open>0.010000000000005116\<close> in binary64).
\<close>

lemma amount_mismatch_at_one_hundredth:
  "\<not> amount_mismatch (Number (parseFloat 45001)) 45000 \<and>
   amount_mismatch (Number (parseFloat 10001)) 10000"
proof
  have "fl (43980465111 / 4398046511104) = 43980465111 / 4398046511104"
    using fl_eqI2 [of "-7" "43980465111 / 4398046511104" 5764607523028992]
    by (simp add: pow2_def)
  then show "\<not> amount_mismatch (Number (parseFloat 45001)) 45000"
    by (simp add: amount_mismatch_def parseFloat_45001 parseFloat_45000 fl_hundredth)
  have "fl (703687441777 / 70368744177664) = 703687441777 / 70368744177664"
    using fl_eqI2 [of "-7" "703687441777 / 70368744177664" 5764607523037184]
    by (simp add: pow2_def)
  then show "amount_mismatch (Number (parseFloat 10001)) 10000"
    by (simp add: amount_mismatch_def parseFloat_10001 parseFloat_10000 fl_hundredth)
qed

lemma select_db_100: "select_order_join_customer db_100 1 = Some [(order_100, john)]"
  by (simp add: select_order_join_customer_def int4_def db_100_def db0_def order_100_def
      order1_def john_def)

lemma extract_capture_10001:
  "extractPaymentInfo capture_10001 =
     Some \<lparr>paypalOrderId = Some ''5O190127TN364715T'', payerId = Some ''QYR5Z8XDVJNXQ'',
           amount = Number (parseFloat 10001), currency = Some ''USD''\<rparr>"
  by (simp add: extractPaymentInfo_def capture_10001_def capture0_def parseFloat_amount_def
      parseFloat_def)


text \<open>
  Two captures off the usual path: an order id beyond \<open>INTEGER\<close> makes the \<open>SELECT\<close>
  throw, and the \<open>catch\<close> answers 500; an amount string that is no number gives \<open>NaN\<close>,
  which passes the handler's test, so the order is marked paid and the Payment row
  holds the amount \<open>NaN\<close>.
\<close>

lemma capture_payment_beyond_integer:
  "capture_payment toString captureOrder (capture_req0\<lparr>cr_orderId := 2147483648\<rparr>) db0 =
     \<lparr>response = Response 500 ''Failed to capture payment'', db_after = db0,
      client_held = False\<rparr>"
  by (simp add: capture_payment_def select_order_join_customer_def int4_def
      rollbackTransaction_def rollback_to_same)

lemma capture_payment_not_a_number:
  "capture_payment exact_decimal
     (\<lambda>paypal_id. Some (capture0\<lparr>pp_purchase_unit :=
        Some \<lparr>pu_capture_amount =
                Some \<lparr>pa_value = Some Not_a_number, pa_currency_code = Some ''USD''\<rparr>,
              pu_amount = None\<rparr>\<rparr>))
     capture_req0 db0 =
     \<lparr>response = Response 200 ''Payment captured successfully'',
      db_after = db_paid\<lparr>payments := [payment1\<lparr>p_amount := Numeric_NaN\<rparr>]\<rparr>,
      client_held = False\<rparr>"
proof -
  let ?c = "capture0\<lparr>pp_purchase_unit :=
        Some \<lparr>pu_capture_amount =
                Some \<lparr>pa_value = Some Not_a_number, pa_currency_code = Some ''USD''\<rparr>,
              pu_amount = None\<rparr>\<rparr>"
  let ?pi = "\<lparr>paypalOrderId = Some ''5O190127TN364715T'', payerId = Some ''QYR5Z8XDVJNXQ'',
              amount = NaN, currency = Some ''USD''\<rparr>"
  have sel: "select_order_join_customer db0 (cr_orderId capture_req0) =
               Some ((order1, john) # [])"
    using select_db0 by (simp add: capture_req0_def)
  have gw: "(\<lambda>paypal_id. Some ?c) (cr_paypalOrderId capture_req0) = Some ?c" by simp
  have ext: "extractPaymentInfo ?c = Some ?pi"
    by (simp add: extractPaymentInfo_def capture0_def parseFloat_amount_def)
  have nm: "\<not> amount_mismatch (amount ?pi) (o_total_amount order1)"
    by (simp add: amount_mismatch_def)
  have "payment_row exact_decimal 1 (Some ''5O190127TN364715T'') (Some ''QYR5Z8XDVJNXQ'')
     NaN (Some ''USD'') Paid (Some capture0_data) = Some (payment1\<lparr>p_amount := Numeric_NaN\<rparr>)"
    by (simp add: payment_row_def varchar_null_def varchar_def pg_text_def numeric_param_def
        payment1_def)
       (simp add: jsonb_capture0 [unfolded exact_decimal_def [abs_def]]
          exact_decimal_def [abs_def])
  then have row: "payment_row exact_decimal (cr_orderId capture_req0) (paypalOrderId ?pi)
      (payerId ?pi) (amount ?pi) (currency ?pi) Paid (Some (pp_data ?c)) =
      Some (payment1\<lparr>p_amount := Numeric_NaN\<rparr>)"
    by (simp add: capture_req0_def capture0_def)
  note branch = capture_payment_success_branch
      [of db0 capture_req0 order1 john "[]" "\<lambda>paypal_id. Some ?c" ?c ?pi exact_decimal
          "payment1\<lparr>p_amount := Numeric_NaN\<rparr>",
        OF sel gw ext nm row]
  show ?thesis
    unfolding branch
    by (simp add: update_orders_def add_status_history_def insert_payment_def
        insert_status_history_def db_paid_def db0_def order1_def capture_req0_def
        status_auto_def payment_received_def)
qed

section \<open>Properties of POST /capture-payment\<close>



text \<open>
  C4, as the spec states it, fails in one part: the Payment row does not carry the raw
  gateway payload verbatim. The handler binds \<open>JSON.stringify(captureResult)\<close>, the text
  of the reply that axios has parsed, to a \<open>JSONB\<close> column, and PostgreSQL stores the
  value that this text denotes. For the example capture the call succeeds and the one
  Payment row holds the reply with its members in another order (\<open>payer\<close> before
  \<open>status\<close>, \<open>value\<close> before \<open>currency_code\<close>).
\<close>

theorem capture_payment_payload_counterexample:
  "gateway0 (cr_paypalOrderId capture_req0) = Some capture0 \<and>
   response (capture_payment exact_decimal gateway0 capture_req0 db0) =
     Response 200 ''Payment captured successfully'' \<and>
   payments db0 = [] \<and>
   map p_gateway_response
     (payments (db_after (capture_payment exact_decimal gateway0 capture_req0 db0))) =
     [Some capture0_stored] \<and>
   capture0_stored \<noteq> pp_data capture0"
  by (simp add: capture_db0)
     (simp add: gateway0_def capture_req0_def db0_def db_paid_def payment1_def capture0_def
        capture0_stored_differs)

text \<open>
  C4, amended. A capture on an existing order whose amount passes the handler's test,
  for a gateway amount within the range of \<open>DECIMAL(10,2)\<close> that \<open>toString\<close> reads back,
  ids of at most 255 characters, a currency of at most 3 characters and a reply that
  PostgreSQL accepts as \<open>jsonb\<close> (no NUL character in any of them), commits, in the one
  transaction of the request: the order's payment status \<open>paid\<close> and status
  \<open>confirmed\<close>; exactly one new Payment row, with method \<open>paypal\<close>, the gateway
  reference, the payer id, the gateway amount, the currency, status \<open>paid\<close> and the reply
  as the \<open>jsonb\<close> value of its text (the same members and elements, with the keys of
  every object in the order of \<open>jsonb\<close>); and, as the last status-history row, the entry
  \<open>confirmed\<close> with note "Payment received and confirmed" (after the row of the trigger
  \<open>add_status_history\<close> when the status changed). The client is released. By lemma
  \<open>capture_payment_all_or_nothing\<close>, every other outcome leaves the database as it was.
\<close>

theorem capture_payment_records_payment:
  assumes "select_order_join_customer db (cr_orderId req) = Some ((order, cust) # rest)"
    and "captureOrder (cr_paypalOrderId req) = Some captureResult"
    and "extractPaymentInfo captureResult = Some paymentInfo"
    and "\<not> amount_mismatch (amount paymentInfo) (o_total_amount order)"
    and "amount paymentInfo = Number (parseFloat gateway_amount)"
    and "\<bar>gateway_amount\<bar> < 10 ^ 10"
    and "reads_back toString (parseFloat gateway_amount)"
    and "\<forall>s. pp_id captureResult = Some s \<longrightarrow> pg_text s \<and> length s \<le> 255"
    and "\<forall>s. pp_payer_id captureResult = Some s \<longrightarrow> pg_text s \<and> length s \<le> 255"
    and "\<forall>s. currency paymentInfo = Some s \<longrightarrow> pg_text s \<and> length s \<le> 3"
    and "jsonb_accepts (pp_data captureResult)"
  shows "capture_payment toString captureOrder req db =
           \<lparr>response = Response 200 ''Payment captured successfully'',
            db_after = db
              \<lparr>orders :=
                 map (\<lambda>row. if o_id row = cr_orderId req
                             then row\<lparr>o_payment_status := Paid, o_status := Confirmed\<rparr>
                             else row) (orders db),
               payments := payments db @
                 [\<lparr>p_order_id = cr_orderId req, p_payment_method = Paypal,
                   p_payment_id = pp_id captureResult,
                   p_payer_id = pp_payer_id captureResult,
                   p_amount = Numeric gateway_amount,
                   p_currency = currency paymentInfo, p_status = Paid,
                   p_gateway_response = Some (jsonb toString (pp_data captureResult))\<rparr>],
               order_status_history := order_status_history db @
                 concat (map (\<lambda>row. add_status_history row
                                       (row\<lparr>o_payment_status := Paid, o_status := Confirmed\<rparr>))
                             (filter (\<lambda>row. o_id row = cr_orderId req) (orders db))) @
                 [\<lparr>h_order_id = cr_orderId req, h_status = Confirmed,
                   h_notes = Some ''Payment received and confirmed'', h_changed_by = None\<rparr>]\<rparr>,
            client_held = False\<rparr>"
proof -
  have ids: "paypalOrderId paymentInfo = pp_id captureResult"
    "payerId paymentInfo = pp_payer_id captureResult"
    using assms(3) by (auto simp: extractPaymentInfo_def Let_def split: option.splits)
  have stored: "numeric_param toString (amount paymentInfo) = Some (Numeric gateway_amount)"
    using assms(5-7) by (simp add: numeric_param_def stored_parseFloat)
  have row: "payment_row toString (cr_orderId req) (paypalOrderId paymentInfo)
               (payerId paymentInfo) (amount paymentInfo) (currency paymentInfo) Paid
               (Some (pp_data captureResult)) =
             Some \<lparr>p_order_id = cr_orderId req, p_payment_method = Paypal,
                   p_payment_id = pp_id captureResult,
                   p_payer_id = pp_payer_id captureResult,
                   p_amount = Numeric gateway_amount,
                   p_currency = currency paymentInfo, p_status = Paid,
                   p_gateway_response = Some (jsonb toString (pp_data captureResult))\<rparr>"
    using payment_row_fits [OF _ _ stored assms(10,11), of "paypalOrderId paymentInfo"
        "payerId paymentInfo" "cr_orderId req" Paid] assms(8,9)
    by (simp add: ids)
  note branch = capture_payment_success_branch
      [of db req order cust rest captureOrder captureResult paymentInfo toString _,
        OF assms(1-4) row]
  show ?thesis
    unfolding branch
    by (simp add: insert_status_history_def insert_payment_def history_update_orders
        orders_update_orders payments_update_orders) (simp add: update_orders_def)
qed

theorem capture_payment_records_payment_witness:
  "select_order_join_customer db0 (cr_orderId capture_req0) = Some ((order1, john) # []) \<and>
   gateway0 (cr_paypalOrderId capture_req0) = Some capture0 \<and>
   \<not> amount_mismatch (Number 450) (o_total_amount order1) \<and>
   Number 450 = Number (parseFloat 45000) \<and> \<bar>45000 :: int\<bar> < 10 ^ 10 \<and>
   reads_back exact_decimal (parseFloat 45000) \<and>
   jsonb_accepts (pp_data capture0) \<and>
   jsonb exact_decimal (pp_data capture0) = capture0_stored \<and>
   capture_payment exact_decimal gateway0 capture_req0 db0 =
     \<lparr>response = Response 200 ''Payment captured successfully'', db_after = db_paid,
      client_held = False\<rparr>"
proof -
  have h1: "select_order_join_customer db0 (cr_orderId capture_req0) =
              Some ((order1, john) # [])"
    using select_db0 by (simp add: capture_req0_def)
  have h2: "gateway0 (cr_paypalOrderId capture_req0) = Some capture0"
    by (simp add: gateway0_def capture_req0_def)
  have h4: "\<not> amount_mismatch (Number 450) (o_total_amount order1)"
    by (simp add: not_mismatch_450 order1_def)
  have h5: "Number 450 = Number (parseFloat 45000)" by (simp add: parseFloat_45000)
  have h6: "\<bar>45000 :: int\<bar> < 10 ^ 10" by simp
  have h7: "reads_back exact_decimal (parseFloat 45000)"
    by (simp add: parseFloat_45000 reads_back_450)
  have h8: "\<forall>s. pp_id capture0 = Some s \<longrightarrow> pg_text s \<and> length s \<le> 255"
    "\<forall>s. pp_payer_id capture0 = Some s \<longrightarrow> pg_text s \<and> length s \<le> 255"
    by (auto simp: capture0_def pg_text_def)
  have h10: "\<forall>s. Some ''USD'' = Some s \<longrightarrow> pg_text s \<and> length s \<le> 3"
    by (auto simp: pg_text_def)
  have h11: "jsonb_accepts (pp_data capture0)" "jsonb exact_decimal (pp_data capture0) = capture0_stored"
    using jsonb_capture0 by (simp_all add: jsonb_in_def capture0_def split: if_splits)
  from capture_payment_records_payment
    [of db0 capture_req0 order1 john "[]" gateway0 capture0
        "\<lparr>paypalOrderId = Some ''5O190127TN364715T'', payerId = Some ''QYR5Z8XDVJNXQ'',
          amount = Number 450, currency = Some ''USD''\<rparr>" 45000 exact_decimal]
    h1 h2 extract_capture0 h4 h5 h6 h7 h8 h10 h11
  have "capture_payment exact_decimal gateway0 capture_req0 db0 =
     \<lparr>response = Response 200 ''Payment captured successfully'', db_after = db_paid,
      client_held = False\<rparr>"
    by (simp add: capture_db0)
  with h1 h2 h4 h5 h6 h7 h11 show ?thesis by simp
qed

text \<open>
  C9, as written, fails: an amount that matches the stored total within 0.01 does not
  always pass the handler's test, which is computed in binary64. For a total of 100.00
  and a captured amount of 100.01, one hundredth apart, \<open>100.01 - 100\<close> is
  \<open>0.010000000000005116\<close>, more than the double nearest to 0.01: the handler answers
  400 "Payment amount mismatch" and the order stays \<open>pending\<close>, payment \<open>pending\<close>.
\<close>

theorem capture_one_hundredth_apart_counterexample:
  "select_order_join_customer db_100 (cr_orderId capture_req0) = Some [(order_100, john)] \<and>
   o_total_amount order_100 = 10000 \<and>
   gateway_10001 (cr_paypalOrderId capture_req0) = Some capture_10001 \<and>
   extractPaymentInfo capture_10001 =
     Some \<lparr>paypalOrderId = Some ''5O190127TN364715T'', payerId = Some ''QYR5Z8XDVJNXQ'',
           amount = Number (parseFloat 10001), currency = Some ''USD''\<rparr> \<and>
   \<bar>(10001 :: rat) / 100 - 10000 / 100\<bar> \<le> 1 / 100 \<and>
   capture_payment exact_decimal gateway_10001 capture_req0 db_100 =
     \<lparr>response = Response 400 ''Payment amount mismatch'', db_after = db_100,
      client_held = False\<rparr> \<and>
   map o_status (orders db_100) = [Pending] \<and>
   map o_payment_status (orders db_100) = [Pay_pending]"
proof -
  have h1: "select_order_join_customer db_100 (cr_orderId capture_req0) =
              Some ((order_100, john) # [])"
    using select_db_100 by (simp add: capture_req0_def)
  have h2: "gateway_10001 (cr_paypalOrderId capture_req0) = Some capture_10001"
    by (simp add: gateway_10001_def)
  have h4: "amount_mismatch
              (amount \<lparr>paypalOrderId = Some ''5O190127TN364715T'',
                       payerId = Some ''QYR5Z8XDVJNXQ'',
                       amount = Number (parseFloat 10001), currency = Some ''USD''\<rparr>)
              (o_total_amount order_100)"
    using amount_mismatch_at_one_hundredth by (simp add: order_100_def)
  note branch = capture_payment_mismatch_branch
      [of db_100 capture_req0 order_100 john "[]" gateway_10001 capture_10001
          "\<lparr>paypalOrderId = Some ''5O190127TN364715T'', payerId = Some ''QYR5Z8XDVJNXQ'',
            amount = Number (parseFloat 10001), currency = Some ''USD''\<rparr>" exact_decimal,
        OF h1 h2 extract_capture_10001 h4]
  show ?thesis
    using h1 h2 branch
    by (simp add: extract_capture_10001) (simp add: order_100_def db_100_def order1_def)
qed

text \<open>
  C9, amended. Whenever the handler's own test passes on an existing order (in binary64,
  \<open>Math.abs(amount - parseFloat(total)) > 0.01\<close> is false, as it is for an amount equal
  to the stored total) and the \<open>payments\<close> table accepts the Payment row, the capture
  answers 200 and the order's row gets status \<open>confirmed\<close> and payment status \<open>paid\<close>
  whatever its status was: nothing is assumed of the current status, and the handler
  consults no transition table. The witness starts from a \<open>completed\<close> order.
\<close>

theorem capture_payment_ignores_status:
  assumes "select_order_join_customer db (cr_orderId req) = Some ((order, cust) # rest)"
    and "captureOrder (cr_paypalOrderId req) = Some captureResult"
    and "extractPaymentInfo captureResult = Some paymentInfo"
    and "\<not> amount_mismatch (amount paymentInfo) (o_total_amount order)"
    and "payment_row toString (cr_orderId req) (paypalOrderId paymentInfo) (payerId paymentInfo)
           (amount paymentInfo) (currency paymentInfo) Paid (Some (pp_data captureResult)) =
         Some p"
  shows "response (capture_payment toString captureOrder req db) =
           Response 200 ''Payment captured successfully'' \<and>
         orders (db_after (capture_payment toString captureOrder req db)) =
           map (\<lambda>row. if o_id row = cr_orderId req
                       then row\<lparr>o_payment_status := Paid, o_status := Confirmed\<rparr> else row)
               (orders db) \<and>
         \<not> amount_mismatch (Number (parseFloat (o_total_amount order))) (o_total_amount order)"
proof -
  note branch = capture_payment_success_branch
      [of db req order cust rest captureOrder captureResult paymentInfo toString p,
        OF assms]
  show ?thesis
    by (simp add: branch insert_status_history_def insert_payment_def orders_update_orders
        amount_mismatch_same)
qed

theorem capture_payment_ignores_status_witness:
  "select_order_join_customer db_completed (cr_orderId capture_req0) =
     Some ((order1\<lparr>o_status := Completed, o_payment_status := Paid\<rparr>, john) # []) \<and>
   gateway0 (cr_paypalOrderId capture_req0) = Some capture0 \<and>
   \<not> amount_mismatch (Number 450)
       (o_total_amount (order1\<lparr>o_status := Completed, o_payment_status := Paid\<rparr>)) \<and>
   payment_row exact_decimal 1 (Some ''5O190127TN364715T'') (Some ''QYR5Z8XDVJNXQ'')
     (Number 450) (Some ''USD'') Paid (Some capture0_data) = Some payment1 \<and>
   response (capture_payment exact_decimal gateway0 capture_req0 db_completed) =
     Response 200 ''Payment captured successfully'' \<and>
   orders (db_after (capture_payment exact_decimal gateway0 capture_req0 db_completed)) =
     [order1\<lparr>o_status := Confirmed, o_payment_status := Paid\<rparr>]"
proof -
  have h1: "select_order_join_customer db_completed (cr_orderId capture_req0) =
     Some ((order1\<lparr>o_status := Completed, o_payment_status := Paid\<rparr>, john) # [])"
    by (simp add: select_order_join_customer_def int4_def db_completed_def db0_def order1_def
        john_def capture_req0_def)
  have h2: "gateway0 (cr_paypalOrderId capture_req0) = Some capture0"
    by (simp add: gateway0_def capture_req0_def)
  have h4: "\<not> amount_mismatch (Number 450)
              (o_total_amount (order1\<lparr>o_status := Completed, o_payment_status := Paid\<rparr>))"
    by (simp add: not_mismatch_450 order1_def)
  from capture_payment_ignores_status
    [of db_completed capture_req0 "order1\<lparr>o_status := Completed, o_payment_status := Paid\<rparr>"
        john "[]" gateway0 capture0
        "\<lparr>paypalOrderId = Some ''5O190127TN364715T'', payerId = Some ''QYR5Z8XDVJNXQ'',
          amount = Number 450, currency = Some ''USD''\<rparr>" exact_decimal payment1]
    h1 h2 extract_capture0 h4 payment_row_capture0
  have "response (capture_payment exact_decimal gateway0 capture_req0 db_completed) =
     Response 200 ''Payment captured successfully'' \<and>
   orders (db_after (capture_payment exact_decimal gateway0 capture_req0 db_completed)) =
     [order1\<lparr>o_status := Confirmed, o_payment_status := Paid\<rparr>]"
    by (simp add: db_completed_def db0_def order1_def capture_req0_def capture0_def)
  with h1 h2 h4 payment_row_capture0 show ?thesis by simp
qed

text \<open>
  C1, as the spec states it, fails: the handler never reads the \<open>payments\<close> table. On
  the database left by a first capture, where the order has a \<open>paid\<close> Payment row with
  the same gateway reference, a second call with the same capture response answers 200,
  inserts a second Payment row and appends a second "Payment received and confirmed"
  history entry.
\<close>

theorem capture_payment_twice_counterexample:
  "p_status payment1 = Paid \<and> p_payment_id payment1 = Some (cr_paypalOrderId capture_req0) \<and>
   payments db_paid = [payment1] \<and>
   response (capture_payment exact_decimal gateway0 capture_req0 db_paid) =
     Response 200 ''Payment captured successfully'' \<and>
   payments (db_after (capture_payment exact_decimal gateway0 capture_req0 db_paid)) =
     [payment1, payment1] \<and>
   order_status_history (db_after (capture_payment exact_decimal gateway0 capture_req0 db_paid)) =
     order_status_history db_paid @ [payment_received]"
  by (simp add: capture_db_paid) (simp add: example_defs)

text \<open>
  C1, amended. After a successful capture, a second call for which the gateway gives the
  same capture response succeeds too: it appends one more Payment row equal to the first
  call's, leaves the order row as the first call left it (\<open>confirmed\<close>, \<open>paid\<close>), and
  appends one more "Payment received and confirmed" history entry (and no trigger row,
  the status being unchanged).
\<close>

theorem capture_payment_repeat_appends:
  assumes "select_order_join_customer db (cr_orderId req) = Some ((order, cust) # rest)"
    and "captureOrder (cr_paypalOrderId req) = Some captureResult"
    and "extractPaymentInfo captureResult = Some paymentInfo"
    and "\<not> amount_mismatch (amount paymentInfo) (o_total_amount order)"
    and "payment_row toString (cr_orderId req) (paypalOrderId paymentInfo) (payerId paymentInfo)
           (amount paymentInfo) (currency paymentInfo) Paid (Some (pp_data captureResult)) =
         Some paid"
    and "db1 = db_after (capture_payment toString captureOrder req db)"
  shows "payments db1 = payments db @ [paid] \<and>
         response (capture_payment toString captureOrder req db1) =
           Response 200 ''Payment captured successfully'' \<and>
         payments (db_after (capture_payment toString captureOrder req db1)) =
           payments db @ [paid, paid] \<and>
         orders (db_after (capture_payment toString captureOrder req db1)) = orders db1 \<and>
         order_status_history (db_after (capture_payment toString captureOrder req db1)) =
           order_status_history db1 @
           [\<lparr>h_order_id = cr_orderId req, h_status = Confirmed,
             h_notes = Some ''Payment received and confirmed'', h_changed_by = None\<rparr>]"
proof -
  let ?set = "\<lambda>row. row\<lparr>o_payment_status := Paid, o_status := Confirmed\<rparr>"
  let ?h = "\<lparr>h_order_id = cr_orderId req, h_status = Confirmed,
             h_notes = Some ''Payment received and confirmed'', h_changed_by = None\<rparr>"
  let ?u = "update_orders ?set (cr_orderId req) db"
  note first = capture_payment_success_branch
      [of db req order cust rest captureOrder captureResult paymentInfo toString paid,
        OF assms(1-5)]
  have db1: "db1 = insert_status_history ?h (insert_payment paid ?u)"
    by (simp add: assms(6) first)
  have oid: "o_id order = cr_orderId req" using assms(1) by (rule select_join_id)
  have sel: "select_order_join_customer db1 (cr_orderId req) =
               Some ((?set order, cust) #
               map (\<lambda>(row, c). (if o_id row = cr_orderId req then ?set row else row, c)) rest)"
    using select_join_after_update [of ?set db "cr_orderId req" _ "cr_orderId req", OF _ _ assms(1)]
    by (simp add: db1 oid)
  have nm: "\<not> amount_mismatch (amount paymentInfo) (o_total_amount (?set order))"
    using assms(4) by simp
  note second = capture_payment_success_branch
      [of db1 req "?set order" cust _ captureOrder captureResult paymentInfo toString paid,
        OF sel assms(2,3) nm assms(5)]
  have ord1: "orders db1 =
      map (\<lambda>row. if o_id row = cr_orderId req then ?set row else row) (orders db)"
    by (simp add: db1 insert_status_history_def insert_payment_def orders_update_orders)
  have pay1: "payments db1 = payments db @ [paid]"
    by (simp add: db1 insert_status_history_def insert_payment_def payments_update_orders)
  have hist: "order_status_history (update_orders ?set (cr_orderId req) db1) =
                order_status_history db1"
    by (rule history_update_orders_same_status [where st = Confirmed]) (auto simp: ord1)
  show ?thesis
    unfolding second
    by (simp add: pay1 insert_status_history_def insert_payment_def orders_update_orders
        payments_update_orders hist) (simp add: ord1 map_confirm_twice)
qed

theorem capture_payment_repeat_appends_witness:
  "select_order_join_customer db0 (cr_orderId capture_req0) = Some ((order1, john) # []) \<and>
   gateway0 (cr_paypalOrderId capture_req0) = Some capture0 \<and>
   \<not> amount_mismatch (Number 450) (o_total_amount order1) \<and>
   payment_row exact_decimal (cr_orderId capture_req0) (Some ''5O190127TN364715T'')
     (Some ''QYR5Z8XDVJNXQ'') (Number 450) (Some ''USD'') Paid (Some (pp_data capture0)) =
     Some payment1 \<and>
   db_paid = db_after (capture_payment exact_decimal gateway0 capture_req0 db0) \<and>
   payments db_paid = payments db0 @ [payment1] \<and>
   response (capture_payment exact_decimal gateway0 capture_req0 db_paid) =
     Response 200 ''Payment captured successfully'' \<and>
   payments (db_after (capture_payment exact_decimal gateway0 capture_req0 db_paid)) =
     payments db0 @ [payment1, payment1] \<and>
   orders (db_after (capture_payment exact_decimal gateway0 capture_req0 db_paid)) =
     orders db_paid \<and>
   order_status_history (db_after (capture_payment exact_decimal gateway0 capture_req0 db_paid)) =
     order_status_history db_paid @ [payment_received]"
proof -
  have h1: "select_order_join_customer db0 (cr_orderId capture_req0) =
              Some ((order1, john) # [])"
    using select_db0 by (simp add: capture_req0_def)
  have h2: "gateway0 (cr_paypalOrderId capture_req0) = Some capture0"
    by (simp add: gateway0_def capture_req0_def)
  have h4: "\<not> amount_mismatch (Number 450) (o_total_amount order1)"
    by (simp add: not_mismatch_450 order1_def)
  have h5: "payment_row exact_decimal (cr_orderId capture_req0) (Some ''5O190127TN364715T'')
     (Some ''QYR5Z8XDVJNXQ'') (Number 450) (Some ''USD'') Paid (Some (pp_data capture0)) =
     Some payment1"
    using payment_row_capture0 by (simp add: capture_req0_def capture0_def)
  have h6: "db_paid = db_after (capture_payment exact_decimal gateway0 capture_req0 db0)"
    by (simp add: capture_db0)
  from capture_payment_repeat_appends
    [of db0 capture_req0 order1 john "[]" gateway0 capture0
        "\<lparr>paypalOrderId = Some ''5O190127TN364715T'', payerId = Some ''QYR5Z8XDVJNXQ'',
          amount = Number 450, currency = Some ''USD''\<rparr>" exact_decimal payment1 db_paid]
    h1 h2 extract_capture0 h4 h5 h6
  show ?thesis by (simp add: capture_req0_def payment_received_def)
qed

section \<open>Lemmas on the status route, the webhook and their examples\<close>

lemma update_order_status_success_branch:
  assumes "validateStatusUpdate req = Some (oid, st, body_notes)"
    and "select_order db oid = Some (row # rest)"
    and "pg_text (case body_notes of None \<Rightarrow> [] | Some n \<Rightarrow> n)"
  shows "update_order_status req db =
           \<lparr>response = Response 200 ''Order status updated successfully'',
            db_after =
              insert_status_history
                \<lparr>h_order_id = oid, h_status = st,
                 h_notes = Some (case body_notes of None \<Rightarrow> [] | Some n \<Rightarrow> n),
                 h_changed_by = Some (su_admin_id req)\<rparr>
                (update_orders (\<lambda>r. r\<lparr>o_status := st\<rparr>) oid db),
            client_held = False\<rparr>"
  using assms by (simp add: update_order_status_def commitTransaction_def Let_def)

lemma validate_status_req0: "validateStatusUpdate status_req0 = Some (1, In_progress, None)"
  by (simp add: validateStatusUpdate_def status_req0_def order_status_of_def)

lemma pg_text_empty: "pg_text (case None :: string option of None \<Rightarrow> [] | Some n \<Rightarrow> n)"
  by (simp add: pg_text_def)

lemma select_order_db_completed:
  "select_order db_completed 1 =
     Some (order1\<lparr>o_status := Completed, o_payment_status := Paid\<rparr> # [])"
  by (simp add: select_order_def int4_def db_completed_def db0_def order1_def)

lemma update_status_db_completed:
  "update_order_status status_req0 db_completed =
     \<lparr>response = Response 200 ''Order status updated successfully'',
      db_after = db_completed
        \<lparr>orders := [order1\<lparr>o_status := In_progress, o_payment_status := Paid\<rparr>],
         order_status_history :=
           [order_created, status_auto In_progress,
            \<lparr>h_order_id = 1, h_status = In_progress, h_notes = Some [],
             h_changed_by = Some 7\<rparr>]\<rparr>,
      client_held = False\<rparr>"
  unfolding update_order_status_success_branch
      [OF validate_status_req0 select_order_db_completed pg_text_empty]
  by (simp add: update_orders_def add_status_history_def insert_status_history_def
      db_completed_def db0_def order1_def status_auto_def status_req0_def)

lemma select_order_db0: "select_order db0 1 = Some [order1]"
  by (simp add: select_order_def int4_def db0_def order1_def)

lemma webhook_denied_branch:
  "event_type ev = ''PAYMENT.CAPTURE.DENIED'' \<Longrightarrow>
   paypal_webhook toString production ev db =
     \<lparr>response = Response 200 [], db_after = handlePaymentDenied toString (resource ev) db,
      client_held = False\<rparr>"
  by (simp add: paypal_webhook_def)

lemma jsonb_denied0: "jsonb_in exact_decimal denied0_data = Some denied0_data"
  by (simp add: jsonb_in_def denied0_data_def jsonb_object_def key_less_def utf8_def
      pg_text_def)

lemma webhook_denied0_db_paid:
  "paypal_webhook exact_decimal production denied0 db_paid =
     \<lparr>response = Response 200 [],
      db_after = db_paid\<lparr>payments := [payment1\<lparr>p_status := Failed,
                                                p_gateway_response := Some denied0_data\<rparr>]\<rparr>,
      client_held = False\<rparr>"
  by (simp add: paypal_webhook_def handlePaymentDenied_def update_payments_status_def
      denied0_def jsonb_denied0 pg_text_def db_paid_def db0_def payment1_def)

lemma webhook_denied0_db0:
  "paypal_webhook exact_decimal production denied0 db0 =
     \<lparr>response = Response 200 [], db_after = db0, client_held = False\<rparr>"
  by (simp add: paypal_webhook_def handlePaymentDenied_def update_payments_status_def
      denied0_def jsonb_denied0 pg_text_def db0_def)

text \<open>
  The other outcomes of the status route: 400 for a request that fails validation, 500
  for an id beyond \<open>INTEGER\<close> or notes that are no text, 404 for an unknown order. Each
  leaves the database as it was.
\<close>

lemma update_order_status_rejects:
  "validateStatusUpdate req = None \<Longrightarrow>
   update_order_status req db =
     \<lparr>response = Response 400 ''Validation failed'', db_after = db, client_held = False\<rparr>"
  "validateStatusUpdate req = Some (oid, st, body_notes) \<Longrightarrow> select_order db oid = None \<Longrightarrow>
   update_order_status req db =
     \<lparr>response = Response 500 ''Failed to update order status'', db_after = db,
      client_held = False\<rparr>"
  "validateStatusUpdate req = Some (oid, st, body_notes) \<Longrightarrow> select_order db oid = Some [] \<Longrightarrow>
   update_order_status req db =
     \<lparr>response = Response 404 ''Order not found'', db_after = db, client_held = False\<rparr>"
  "validateStatusUpdate req = Some (oid, st, body_notes) \<Longrightarrow>
   select_order db oid = Some (row # rest) \<Longrightarrow>
   \<not> pg_text (case body_notes of None \<Rightarrow> [] | Some n \<Rightarrow> n) \<Longrightarrow>
   update_order_status req db =
     \<lparr>response = Response 500 ''Failed to update order status'', db_after = db,
      client_held = False\<rparr>"
  by (simp_all add: update_order_status_def rollbackTransaction_def rollback_to_same
      rollback_to_update_orders)

lemma update_order_status_beyond_integer:
  "update_order_status (status_req0\<lparr>su_id := 2147483648\<rparr>) db0 =
     \<lparr>response = Response 500 ''Failed to update order status'', db_after = db0,
      client_held = False\<rparr>"
  by (simp add: update_order_status_def validateStatusUpdate_def status_req0_def
      order_status_of_def select_order_def int4_def rollbackTransaction_def rollback_to_same)

section \<open>Properties of PUT /orders/:id/status\<close>

text \<open>
  C2, as the spec states it, fails: neither \<open>validateStatusUpdate\<close> nor the handler
  compares the requested status with the current one, and no transition table exists in
  the code. For a \<open>completed\<close> order, the request to set \<open>in_progress\<close> answers 200, the
  order becomes \<open>in_progress\<close> and the status history grows.
\<close>

theorem status_update_completed_to_in_progress:
  "o_status (hd (orders db_completed)) = Completed \<and>
   response (update_order_status status_req0 db_completed) =
     Response 200 ''Order status updated successfully'' \<and>
   map o_status (orders (db_after (update_order_status status_req0 db_completed))) =
     [In_progress] \<and>
   order_status_history (db_after (update_order_status status_req0 db_completed)) \<noteq>
     order_status_history db_completed"
  by (simp add: update_status_db_completed) (simp add: db_completed_def db0_def order1_def)

text \<open>
  C2, amended. For every order that the handler's \<open>SELECT\<close> finds and every request that
  passes \<open>validateStatusUpdate\<close> (a status among the five enum literals) with notes that
  PostgreSQL accepts as text, the route sets the order's status to the requested one
  whatever the current status is, terminal or not, appends the trigger's history row
  when the status changed and then its own history row (status, notes, admin id),
  commits and answers 200.
\<close>

theorem update_order_status_any_transition:
  assumes "validateStatusUpdate req = Some (oid, st, body_notes)"
    and "select_order db oid = Some (row # rest)"
    and "pg_text (case body_notes of None \<Rightarrow> [] | Some n \<Rightarrow> n)"
  shows "update_order_status req db =
           \<lparr>response = Response 200 ''Order status updated successfully'',
            db_after = db
              \<lparr>orders := map (\<lambda>r. if o_id r = oid then r\<lparr>o_status := st\<rparr> else r) (orders db),
               order_status_history := order_status_history db @
                 concat (map (\<lambda>r. add_status_history r (r\<lparr>o_status := st\<rparr>))
                             (filter (\<lambda>r. o_id r = oid) (orders db))) @
                 [\<lparr>h_order_id = oid, h_status = st,
                   h_notes = Some (case body_notes of None \<Rightarrow> [] | Some n \<Rightarrow> n),
                   h_changed_by = Some (su_admin_id req)\<rparr>]\<rparr>,
            client_held = False\<rparr>"
  unfolding update_order_status_success_branch [OF assms]
  by (simp add: insert_status_history_def history_update_orders orders_update_orders)
     (simp add: update_orders_def)

theorem update_order_status_any_transition_witness:
  "validateStatusUpdate status_req0 = Some (1, In_progress, None) \<and>
   select_order db_completed 1 =
     Some (order1\<lparr>o_status := Completed, o_payment_status := Paid\<rparr> # []) \<and>
   pg_text [] \<and>
   update_order_status status_req0 db_completed =
     \<lparr>response = Response 200 ''Order status updated successfully'',
      db_after = db_completed
        \<lparr>orders := [order1\<lparr>o_status := In_progress, o_payment_status := Paid\<rparr>],
         order_status_history :=
           [order_created, status_auto In_progress,
            \<lparr>h_order_id = 1, h_status = In_progress, h_notes = Some [],
             h_changed_by = Some 7\<rparr>]\<rparr>,
      client_held = False\<rparr>"
proof -
  note h2 = select_order_db_completed
  from update_order_status_any_transition [OF validate_status_req0 h2 pg_text_empty]
  have "update_order_status status_req0 db_completed =
     \<lparr>response = Response 200 ''Order status updated successfully'',
      db_after = db_completed
        \<lparr>orders := [order1\<lparr>o_status := In_progress, o_payment_status := Paid\<rparr>],
         order_status_history :=
           [order_created, status_auto In_progress,
            \<lparr>h_order_id = 1, h_status = In_progress, h_notes = Some [],
             h_changed_by = Some 7\<rparr>]\<rparr>,
      client_held = False\<rparr>"
    by (simp add: add_status_history_def db_completed_def db0_def order1_def status_auto_def
        status_req0_def)
  with validate_status_req0 h2 show ?thesis by (simp add: pg_text_def)
qed

section \<open>Properties of the trigger \<open>add_status_history\<close>\<close>

text \<open>
  C10. An \<open>UPDATE\<close> of the one \<open>orders\<close> row with a given id that changes its status
  makes the trigger append a history row with note "Status changed automatically"; hence
  the admin status route and the capture route, which insert a history row of their own
  after their \<open>UPDATE\<close>, append two history rows for one change of status: the trigger's,
  then the route's.
\<close>

theorem status_change_two_history_entries:
  "(select_order db oid = Some [row] \<and> o_id (set_cols row) = oid \<and>
    o_status (set_cols row) \<noteq> o_status row \<longrightarrow>
      order_status_history (update_orders set_cols oid db) =
        order_status_history db @
        [\<lparr>h_order_id = oid, h_status = o_status (set_cols row),
          h_notes = Some ''Status changed automatically'', h_changed_by = None\<rparr>]) \<and>
   (validateStatusUpdate sreq = Some (oid, st, body_notes) \<and> select_order db oid = Some [row] \<and>
    pg_text (case body_notes of None \<Rightarrow> [] | Some n \<Rightarrow> n) \<and>
    o_status row \<noteq> st \<longrightarrow>
      order_status_history (db_after (update_order_status sreq db)) =
        order_status_history db @
        [\<lparr>h_order_id = oid, h_status = st,
          h_notes = Some ''Status changed automatically'', h_changed_by = None\<rparr>,
         \<lparr>h_order_id = oid, h_status = st,
          h_notes = Some (case body_notes of None \<Rightarrow> [] | Some n \<Rightarrow> n),
          h_changed_by = Some (su_admin_id sreq)\<rparr>]) \<and>
   (select_order_join_customer db (cr_orderId req) = Some ((order, cust) # rest) \<and>
    select_order db (cr_orderId req) = Some [order] \<and>
    captureOrder (cr_paypalOrderId req) = Some captureResult \<and>
    extractPaymentInfo captureResult = Some paymentInfo \<and>
    \<not> amount_mismatch (amount paymentInfo) (o_total_amount order) \<and>
    payment_row toString (cr_orderId req) (paypalOrderId paymentInfo) (payerId paymentInfo)
      (amount paymentInfo) (currency paymentInfo) Paid (Some (pp_data captureResult)) =
      Some p \<and>
    o_status order \<noteq> Confirmed \<longrightarrow>
      order_status_history (db_after (capture_payment toString captureOrder req db)) =
        order_status_history db @
        [\<lparr>h_order_id = cr_orderId req, h_status = Confirmed,
          h_notes = Some ''Status changed automatically'', h_changed_by = None\<rparr>,
         \<lparr>h_order_id = cr_orderId req, h_status = Confirmed,
          h_notes = Some ''Payment received and confirmed'', h_changed_by = None\<rparr>])"
proof (intro conjI impI)
  assume a: "select_order db oid = Some [row] \<and> o_id (set_cols row) = oid \<and>
          o_status (set_cols row) \<noteq> o_status row"
  then have "filter (\<lambda>r. o_id r = oid) (orders db) = [row]"
    by (simp add: select_order_def split: if_splits)
  with a show "order_status_history (update_orders set_cols oid db) =
        order_status_history db @
        [\<lparr>h_order_id = oid, h_status = o_status (set_cols row),
          h_notes = Some ''Status changed automatically'', h_changed_by = None\<rparr>]"
    by (auto simp: history_update_orders add_status_history_def)
next
  assume a: "validateStatusUpdate sreq = Some (oid, st, body_notes) \<and>
             select_order db oid = Some [row] \<and>
             pg_text (case body_notes of None \<Rightarrow> [] | Some n \<Rightarrow> n) \<and> o_status row \<noteq> st"
  then have sel: "select_order db oid = Some (row # [])" by simp
  have v: "validateStatusUpdate sreq = Some (oid, st, body_notes)" using a by simp
  have t: "pg_text (case body_notes of None \<Rightarrow> [] | Some n \<Rightarrow> n)" using a by simp
  have f: "filter (\<lambda>r. o_id r = oid) (orders db) = [row]"
    using sel by (simp add: select_order_def split: if_splits)
  have rid: "o_id row = oid"
  proof -
    have "row \<in> set (filter (\<lambda>r. o_id r = oid) (orders db))" using f by simp
    then show ?thesis by simp
  qed
  show "order_status_history (db_after (update_order_status sreq db)) =
        order_status_history db @
        [\<lparr>h_order_id = oid, h_status = st,
          h_notes = Some ''Status changed automatically'', h_changed_by = None\<rparr>,
         \<lparr>h_order_id = oid, h_status = st,
          h_notes = Some (case body_notes of None \<Rightarrow> [] | Some n \<Rightarrow> n),
          h_changed_by = Some (su_admin_id sreq)\<rparr>]"
    using a rid
    by (simp add: update_order_status_success_branch [OF v sel t]
        insert_status_history_def history_update_orders f add_status_history_def)
next
  assume a: "select_order_join_customer db (cr_orderId req) = Some ((order, cust) # rest) \<and>
    select_order db (cr_orderId req) = Some [order] \<and>
    captureOrder (cr_paypalOrderId req) = Some captureResult \<and>
    extractPaymentInfo captureResult = Some paymentInfo \<and>
    \<not> amount_mismatch (amount paymentInfo) (o_total_amount order) \<and>
    payment_row toString (cr_orderId req) (paypalOrderId paymentInfo) (payerId paymentInfo)
      (amount paymentInfo) (currency paymentInfo) Paid (Some (pp_data captureResult)) =
      Some p \<and>
    o_status order \<noteq> Confirmed"
  then have h: "select_order_join_customer db (cr_orderId req) = Some ((order, cust) # rest)"
    "captureOrder (cr_paypalOrderId req) = Some captureResult"
    "extractPaymentInfo captureResult = Some paymentInfo"
    "\<not> amount_mismatch (amount paymentInfo) (o_total_amount order)"
    "payment_row toString (cr_orderId req) (paypalOrderId paymentInfo) (payerId paymentInfo)
      (amount paymentInfo) (currency paymentInfo) Paid (Some (pp_data captureResult)) =
      Some p"
    by simp_all
  have oid: "o_id order = cr_orderId req" using h(1) by (rule select_join_id)
  have f: "filter (\<lambda>r. o_id r = cr_orderId req) (orders db) = [order]"
    using a by (simp add: select_order_def split: if_splits)
  note branch = capture_payment_success_branch
      [of db req order cust rest captureOrder captureResult paymentInfo toString p,
        OF h]
  show "order_status_history (db_after (capture_payment toString captureOrder req db)) =
        order_status_history db @
        [\<lparr>h_order_id = cr_orderId req, h_status = Confirmed,
          h_notes = Some ''Status changed automatically'', h_changed_by = None\<rparr>,
         \<lparr>h_order_id = cr_orderId req, h_status = Confirmed,
          h_notes = Some ''Payment received and confirmed'', h_changed_by = None\<rparr>]"
    using a oid
    by (simp add: branch insert_status_history_def insert_payment_def history_update_orders
        f add_status_history_def)
qed

theorem status_change_two_history_entries_witness:
  "select_order db0 1 = Some [order1] \<and>
   o_id (order1\<lparr>o_status := Cancelled\<rparr>) = 1 \<and>
   o_status (order1\<lparr>o_status := Cancelled\<rparr>) \<noteq> o_status order1 \<and>
   order_status_history (update_orders (\<lambda>r. r\<lparr>o_status := Cancelled\<rparr>) 1 db0) =
     [order_created, status_auto Cancelled] \<and>
   validateStatusUpdate status_req0 = Some (1, In_progress, None) \<and>
   pg_text [] \<and>
   o_status order1 \<noteq> In_progress \<and>
   order_status_history (db_after (update_order_status status_req0 db0)) =
     [order_created, status_auto In_progress,
      \<lparr>h_order_id = 1, h_status = In_progress, h_notes = Some [], h_changed_by = Some 7\<rparr>] \<and>
   select_order_join_customer db0 (cr_orderId capture_req0) = Some ((order1, john) # []) \<and>
   select_order db0 (cr_orderId capture_req0) = Some [order1] \<and>
   gateway0 (cr_paypalOrderId capture_req0) = Some capture0 \<and>
   \<not> amount_mismatch (Number 450) (o_total_amount order1) \<and>
   payment_row exact_decimal (cr_orderId capture_req0) (Some ''5O190127TN364715T'')
     (Some ''QYR5Z8XDVJNXQ'') (Number 450) (Some ''USD'') Paid (Some (pp_data capture0)) =
     Some payment1 \<and>
   o_status order1 \<noteq> Confirmed \<and>
   order_status_history (db_after (capture_payment exact_decimal gateway0 capture_req0 db0)) =
     [order_created, status_auto Confirmed, payment_received]"
proof -
  have a1: "o_id (order1\<lparr>o_status := Cancelled\<rparr>) = 1"
    "o_status (order1\<lparr>o_status := Cancelled\<rparr>) \<noteq> o_status order1"
    "o_status order1 \<noteq> In_progress" "o_status order1 \<noteq> Confirmed"
    by (simp_all add: order1_def)
  have c1: "select_order_join_customer db0 (cr_orderId capture_req0) =
              Some ((order1, john) # [])"
    using select_db0 by (simp add: capture_req0_def)
  have c2: "select_order db0 (cr_orderId capture_req0) = Some [order1]"
    using select_order_db0 by (simp add: capture_req0_def)
  have c3: "gateway0 (cr_paypalOrderId capture_req0) = Some capture0"
    by (simp add: gateway0_def capture_req0_def)
  have c4: "\<not> amount_mismatch (Number 450) (o_total_amount order1)"
    by (simp add: not_mismatch_450 order1_def)
  have c5: "payment_row exact_decimal (cr_orderId capture_req0) (Some ''5O190127TN364715T'')
     (Some ''QYR5Z8XDVJNXQ'') (Number 450) (Some ''USD'') Paid (Some (pp_data capture0)) =
     Some payment1"
    using payment_row_capture0 by (simp add: capture_req0_def capture0_def)
  have t: "pg_text []" by (simp add: pg_text_def)
  note inst = status_change_two_history_entries
    [of db0 1 order1 "\<lambda>r. r\<lparr>o_status := Cancelled\<rparr>" status_req0 In_progress None
        capture_req0 order1 john "[]" gateway0 capture0
        "\<lparr>paypalOrderId = Some ''5O190127TN364715T'', payerId = Some ''QYR5Z8XDVJNXQ'',
          amount = Number 450, currency = Some ''USD''\<rparr>" exact_decimal payment1]
  have r1: "order_status_history (update_orders (\<lambda>r. r\<lparr>o_status := Cancelled\<rparr>) 1 db0) =
     [order_created, status_auto Cancelled]"
    using inst select_order_db0 a1 by (simp add: db0_def status_auto_def)
  have r2: "order_status_history (db_after (update_order_status status_req0 db0)) =
     [order_created, status_auto In_progress,
      \<lparr>h_order_id = 1, h_status = In_progress, h_notes = Some [], h_changed_by = Some 7\<rparr>]"
    using inst select_order_db0 validate_status_req0 a1 t
    by (simp add: db0_def status_auto_def status_req0_def)
  have r3: "order_status_history
              (db_after (capture_payment exact_decimal gateway0 capture_req0 db0)) =
     [order_created, status_auto Confirmed, payment_received]"
    using inst c1 c2 c3 extract_capture0 c4 c5 a1
    by (simp add: db0_def status_auto_def payment_received_def capture_req0_def)
  show ?thesis
    using select_order_db0 a1 r1 validate_status_req0 t r2 c1 c2 c3 c4 c5 r3 by simp
qed

section \<open>Properties of POST /webhook/paypal\<close>

text \<open>
  C6, as the spec states it, fails: \<open>handlePaymentDenied\<close> only runs an \<open>UPDATE\<close> on
  \<open>payments\<close>. For an order without Payment row the denial records no row and the
  order's payment status stays \<open>pending\<close>; for a paid order the number of Payment rows
  stays the same and the order's payment status stays \<open>paid\<close>.
\<close>

theorem payment_denied_counterexample:
  "payments (db_after (paypal_webhook exact_decimal True denied0 db0)) = [] \<and>
   map o_payment_status (orders (db_after (paypal_webhook exact_decimal True denied0 db0))) =
     [Pay_pending] \<and>
   length (payments (db_after (paypal_webhook exact_decimal True denied0 db_paid))) =
     length (payments db_paid) \<and>
   map o_payment_status (orders (db_after (paypal_webhook exact_decimal True denied0 db_paid))) =
     [Paid]"
  by (simp add: webhook_denied0_db0 webhook_denied0_db_paid)
     (simp add: db0_def db_paid_def order1_def)

text \<open>
  C6, amended. A \<open>PAYMENT.CAPTURE.DENIED\<close> webhook answers 200 and changes nothing but
  existing Payment rows: each row whose \<open>payment_id\<close> equals the id of the webhook's
  resource gets status \<open>failed\<close> and the resource, as the \<open>jsonb\<close> value of its text, as
  its gateway response, every other row is kept, and no row is inserted; the \<open>orders\<close>
  table (status and payment status alike) and the status history are as before. When
  PostgreSQL refuses the resource as \<open>jsonb\<close> or its id as text, the statement fails
  and no row changes.
\<close>

theorem payment_denied_updates_payment_rows_only:
  assumes "event_type ev = ''PAYMENT.CAPTURE.DENIED''"
  shows "response (paypal_webhook toString production ev db) = Response 200 [] \<and>
         orders (db_after (paypal_webhook toString production ev db)) = orders db \<and>
         order_status_history (db_after (paypal_webhook toString production ev db)) =
           order_status_history db \<and>
         length (payments (db_after (paypal_webhook toString production ev db))) =
           length (payments db) \<and>
         (\<forall>i < length (payments db).
            payments (db_after (paypal_webhook toString production ev db)) ! i =
              (case resource ev of
                 None \<Rightarrow> payments db ! i
               | Some r \<Rightarrow>
                   (case jsonb_in toString (wr_data r) of
                      None \<Rightarrow> payments db ! i
                    | Some stored \<Rightarrow>
                        if wr_id r \<noteq> None \<and> p_payment_id (payments db ! i) = wr_id r \<and>
                           (\<forall>pid. wr_id r = Some pid \<longrightarrow> pg_text pid)
                        then (payments db ! i)\<lparr>p_status := Failed,
                                                p_gateway_response := Some stored\<rparr>
                        else payments db ! i)))"
  by (auto simp: webhook_denied_branch [OF assms] handlePaymentDenied_def
      update_payments_status_def split: option.splits)

theorem payment_denied_updates_payment_rows_only_witness:
  "event_type denied0 = ''PAYMENT.CAPTURE.DENIED'' \<and>
   response (paypal_webhook exact_decimal True denied0 db_paid) = Response 200 [] \<and>
   orders (db_after (paypal_webhook exact_decimal True denied0 db_paid)) = orders db_paid \<and>
   order_status_history (db_after (paypal_webhook exact_decimal True denied0 db_paid)) =
     order_status_history db_paid \<and>
   length (payments (db_after (paypal_webhook exact_decimal True denied0 db_paid))) = 1 \<and>
   payments (db_after (paypal_webhook exact_decimal True denied0 db_paid)) ! 0 =
     payment1\<lparr>p_status := Failed, p_gateway_response := Some denied0_data\<rparr>"
proof -
  have h: "event_type denied0 = ''PAYMENT.CAPTURE.DENIED''" by (simp add: denied0_def)
  from payment_denied_updates_payment_rows_only [OF h, of exact_decimal True db_paid]
  show ?thesis
    by (simp add: h)
       (simp add: denied0_def jsonb_denied0 pg_text_def db_paid_def db0_def payment1_def)
qed

section \<open>Lemmas on tracking codes, order creation and their examples\<close>

lemma length_text_of_nat: "n < 10 ^ k \<Longrightarrow> 0 < k \<Longrightarrow> length (text_of_nat n) \<le> k"
proof (induction k arbitrary: n)
  case 0
  then show ?case by simp
next
  case (Suc k)
  show ?case
  proof (cases "n < 10")
    case True
    then show ?thesis by (simp add: text_of_nat.simps [of n])
  next
    case False
    then have k: "0 < k" using Suc.prems by (cases k) auto
    have "n div 10 < 10 ^ k" using Suc.prems by (simp add: less_mult_imp_div_less mult.commute)
    from Suc.IH [OF this k] False show ?thesis by (simp add: text_of_nat.simps [of n])
  qed
qed

lemma text_of_nat_nonempty: "text_of_nat n \<noteq> []"
  by (simp add: text_of_nat.simps [of n])

lemma digit_char_digit: "d < 10 \<Longrightarrow> digit_char d \<in> set ''0123456789''"
  unfolding digit_char_def by (rule nth_mem) simp

lemma text_of_nat_digits: "set (text_of_nat n) \<subseteq> set ''0123456789''"
proof (induction n rule: text_of_nat.induct)
  case (1 n)
  show ?case
  proof (cases "n < 10")
    case True
    then show ?thesis using digit_char_digit [of n] by (simp add: text_of_nat.simps [of n])
  next
    case False
    have "n mod 10 < 10" by simp
    from digit_char_digit [OF this] 1 [OF False] False show ?thesis
      by (simp add: text_of_nat.simps [of n])
  qed
qed

lemma lpad_length: "length (lpad s n c) = n"
  by (simp add: lpad_def)

lemma lpad_zero_pad: "n < 10000 \<Longrightarrow> lpad (text_of_nat n) 4 CHR ''0'' = zero_pad 4 n"
  using length_text_of_nat [of n 4] by (simp add: lpad_def zero_pad_def)

lemma zero_pad_length: "n < 10 ^ w \<Longrightarrow> 0 < w \<Longrightarrow> length (zero_pad w n) = w"
  using length_text_of_nat [of n w] by (simp add: zero_pad_def)

lemma to_char_length:
  "year d < 10000 \<Longrightarrow> month d < 100 \<Longrightarrow> day d < 100 \<Longrightarrow> length (to_char_YYYYMMDD d) = 8"
  using zero_pad_length [of "year d" 4] zero_pad_length [of "month d" 2]
    zero_pad_length [of "day d" 2]
  by (simp add: to_char_YYYYMMDD_def)

lemma lpad_digits: "set (lpad (text_of_nat n) 4 CHR ''0'') \<subseteq> set ''0123456789''"
proof -
  have "set (take 4 (text_of_nat n)) \<subseteq> set ''0123456789''"
    using text_of_nat_digits [of n] set_take_subset [of 4 "text_of_nat n"] by blast
  moreover have "set (replicate k CHR ''0'' @ text_of_nat n) \<subseteq> set ''0123456789''" for k
    using text_of_nat_digits [of n] by auto
  ultimately show ?thesis by (simp add: lpad_def)
qed

lemma replicate_small:
  "replicate 1 c = [c]" "replicate 2 c = [c, c]" "replicate 3 c = [c, c, c]"
  by (simp_all add: numeral_2_eq_2 numeral_3_eq_3)

lemma text_of_nat_4: "text_of_nat 4 = ''4''"
  by (simp add: text_of_nat.simps digit_char_def)

lemma text_of_nat_1: "text_of_nat (Suc 0) = ''1''"
  by (simp add: text_of_nat.simps [of "Suc 0"] digit_char_def)

lemma to_char_feb1: "to_char_YYYYMMDD feb1 = ''20250201''"
  by (simp add: to_char_YYYYMMDD_def zero_pad_def feb1_def text_of_nat.simps digit_char_def)

lemma insert_order_success:
  assumes "pg_text (o_keywords vals)" "int4 (o_quantity vals)"
    and "numeric_10_2 total_text = Some t"
    and "orders_id_seq db + 2 \<le> 2147483647"
    and "orders_id_seq db + 1 \<notin> set (map o_id (orders db))"
    and "''SEO-'' @ to_char_YYYYMMDD now @ ''-'' @
           lpad (text_of_nat (orders_id_seq db + 2)) 4 CHR ''0''
         \<notin> set (map o_tracking_id (orders db))"
  shows "insert_order now vals total_text db =
           (Some (vals\<lparr>o_id := orders_id_seq db + 1,
                        o_tracking_id := ''SEO-'' @ to_char_YYYYMMDD now @ ''-'' @
                          lpad (text_of_nat (orders_id_seq db + 2)) 4 CHR ''0'',
                        o_total_amount := t\<rparr>),
            db\<lparr>orders_id_seq := orders_id_seq db + 2,
               orders := orders db @
                 [vals\<lparr>o_id := orders_id_seq db + 1,
                        o_tracking_id := ''SEO-'' @ to_char_YYYYMMDD now @ ''-'' @
                          lpad (text_of_nat (orders_id_seq db + 2)) 4 CHR ''0'',
                        o_total_amount := t\<rparr>]\<rparr>)"
  using assms
  by (simp add: insert_order_def nextval_orders_id_seq_def generate_tracking_id_def Let_def)

lemma insert_order_feb1:
  "insert_order feb1 order1 450 db0 =
     (Some order2, db0\<lparr>orders_id_seq := 4, orders := [order1, order2]\<rparr>)"
proof -
  have a: "pg_text (o_keywords order1)" "int4 (o_quantity order1)"
    by (simp_all add: order1_def pg_text_def int4_def)
  have b: "orders_id_seq db0 + 2 \<le> 2147483647"
    "orders_id_seq db0 + 1 \<notin> set (map o_id (orders db0))"
    by (simp_all add: db0_def order1_def)
  have c: "''SEO-'' @ to_char_YYYYMMDD feb1 @ ''-'' @
             lpad (text_of_nat (orders_id_seq db0 + 2)) 4 CHR ''0''
           \<notin> set (map o_tracking_id (orders db0))"
    by (simp add: db0_def order1_def to_char_feb1)
  show ?thesis
    unfolding insert_order_success [OF a numeric_450 b c]
    by (simp add: db0_def to_char_feb1 lpad_def text_of_nat_4 replicate_small order2_def
        order1_def)
qed

lemma generate_tracking_id_truncates:
  "map_option fst (generate_tracking_id feb1 (db0\<lparr>orders_id_seq := 1233\<rparr>)) =
     Some ''SEO-20250201-1234'' \<and>
   map_option fst (generate_tracking_id feb1 (db0\<lparr>orders_id_seq := 12344\<rparr>)) =
     Some ''SEO-20250201-1234''"
  by (simp add: generate_tracking_id_def nextval_orders_id_seq_def to_char_feb1 lpad_def
      text_of_nat.simps digit_char_def)

lemma parseFloat_9999: "parseFloat 9999 = 7036170730324623 / 70368744177664"
  using fl_eqI2 [of 6 "9999 / 100" 7036170730324623]
  by (simp add: parseFloat_def pow2_def)

lemma total_amount_9999_3: "total_amount 9999 3 = 5277128047743467 / 17592186044416"
  using fl_eqI2 [of 8 "21108512190973869 / 70368744177664" 5277128047743467]
  by (simp add: total_amount_def parseFloat_9999 pow2_def)

lemma parseFloat_29997: "parseFloat 29997 = 5277128047743468 / 17592186044416"
  using fl_eqI2 [of 8 "29997 / 100" 5277128047743468]
  by (simp add: parseFloat_def pow2_def)

lemma reads_back_total_9999_3: "reads_back exact_decimal (total_amount 9999 3)"
  using fl_eqI2 [of 8 "5277128047743467 / 17592186044416" 5277128047743467]
  by (simp add: reads_back_def exact_decimal_def total_amount_9999_3 pow2_def)

lemma validate_create_req0:
  "validateOrderInput validator0 create_req0"
  "validateOrderCreation validator0 create_req0 = Some create_req0"
  by (simp_all add: validateOrderInput_def validateOrderCreation_def validator0_def
      create_req0_def trim_def is_space_def isInt_min_1_def is_digit_def)

lemma select_tier_db_9999:
  "select_service_tier db_9999 (rq_serviceId create_req0) =
     Some ((tier_7, ''Monthly SEO Packages'') # [])"
  by (simp add: select_service_tier_def pg_text_def db_9999_def db0_def tier_7_def
      standard_monthly_def monthly_seo_def create_req0_def)

lemma validateOrderCreation_Some:
  assumes "validateOrderCreation v request = Some req"
  shows "length (rq_customerName req) \<le> 255"
    and "rq_quantity req = rq_quantity request"
    and "rq_serviceId req = rq_serviceId request"
    and "rq_website req = rq_website request"
    and "case rq_quantity req of None \<Rightarrow> True | Some q \<Rightarrow> 1 \<le> q \<and> q \<le> 100"
    and "isInt_min_1 (rq_serviceId req)"
  using assms by (auto simp: validateOrderCreation_def split: if_splits)

lemma customer_for_order:
  assumes "pg_text email" "length email \<le> 255" "pg_text name" "length name \<le> 255"
    and "pg_text website" "length website \<le> 500"
    and "customers_id_seq db < 2147483647"
    and "customers_id_seq db + 1 \<notin> set (map c_id (customers db))"
  shows "\<exists>found cid db1.
           select_customer_id db email = Some found \<and>
           (case found of
              c # _ \<Rightarrow>
                (case update_customer name website c db of
                   None \<Rightarrow> (None, db)
                 | Some db' \<Rightarrow> (Some c, db'))
            | [] \<Rightarrow> insert_customer name email website None db) = (Some cid, db1) \<and>
           orders db1 = orders db \<and> orders_id_seq db1 = orders_id_seq db"
proof (cases "filter (\<lambda>c. c_email c = email) (customers db)")
  case Nil
  then have "email \<notin> set (map c_email (customers db))"
    by (auto simp: filter_empty_conv)
  with assms Nil show ?thesis
    by (simp add: select_customer_id_def insert_customer_def varchar_fits varchar_null_def
        nextval_customers_id_seq_def)
next
  case (Cons c cs)
  with assms show ?thesis
    by (simp add: select_customer_id_def update_customer_def varchar_fits)
qed

section \<open>Properties of the tracking code\<close>

text \<open>
  C5, as the spec states it, fails in its third part: the suffix is no per-day sequence
  number. \<open>generate_tracking_id\<close> takes it from \<open>orders_id_seq\<close>, the one sequence that
  also numbers the order ids and is never reset. After one order on 2025-01-31 (code
  \<open>SEO-20250131-0002\<close>) the first order of 2025-02-01 gets \<open>SEO-20250201-0004\<close>, where a
  per-day count gives \<open>SEO-20250201-0001\<close>.
\<close>

theorem tracking_suffix_not_per_day:
  "map o_tracking_id (orders db0) = [''SEO-20250131-0002''] \<and>
   map o_tracking_id (orders (snd (insert_order feb1 order1 450 db0))) =
     [''SEO-20250131-0002'', ''SEO-20250201-0004''] \<and>
   per_day_tracking_code feb1 1 = ''SEO-20250201-0001'' \<and>
   o_tracking_id order2 \<noteq> per_day_tracking_code feb1 1"
  by (simp add: insert_order_feb1 per_day_tracking_code_def to_char_feb1 zero_pad_def
      text_of_nat_1 replicate_small)
     (simp add: db0_def order1_def order2_def)

text \<open>
  C5, amended. Every order that \<open>INSERT INTO orders\<close> creates gets the tracking code
  \<open>SEO-\<close>, the date as \<open>YYYYMMDD\<close> (eight digits for a four-digit year), \<open>-\<close>, and a
  suffix of exactly four digits made from the next value of \<open>orders_id_seq\<close>; each
  insertion advances that sequence by two (one value for the id, one for the code),
  whatever the day; while the value is below 10000 the suffix is that value zero-padded
  to four digits. The code is different from the code of every order already stored
  (the unique constraint refuses the row otherwise), so distinct codes stay distinct.
  What \<open>LPAD\<close> does to a value of five digits (lemma \<open>generate_tracking_id_truncates\<close>)
  is left out of the amended claim.
\<close>

theorem insert_order_tracking_id:
  assumes "insert_order now vals total_text db = (Some NEW, db')"
  shows "orders_id_seq db' = orders_id_seq db + 2 \<and>
         o_id NEW = orders_id_seq db + 1 \<and>
         o_tracking_id NEW =
           ''SEO-'' @ to_char_YYYYMMDD now @ ''-'' @
           lpad (text_of_nat (orders_id_seq db')) 4 CHR ''0'' \<and>
         length (lpad (text_of_nat (orders_id_seq db')) 4 CHR ''0'') = 4 \<and>
         set (lpad (text_of_nat (orders_id_seq db')) 4 CHR ''0'') \<subseteq> set ''0123456789'' \<and>
         (orders_id_seq db' < 10000 \<longrightarrow>
            lpad (text_of_nat (orders_id_seq db')) 4 CHR ''0'' = zero_pad 4 (orders_id_seq db')) \<and>
         (year now < 10000 \<and> month now < 100 \<and> day now < 100 \<longrightarrow>
            length (to_char_YYYYMMDD now) = 8) \<and>
         orders db' = orders db @ [NEW] \<and>
         o_tracking_id NEW \<notin> set (map o_tracking_id (orders db)) \<and>
         (distinct (map o_tracking_id (orders db)) \<longrightarrow>
            distinct (map o_tracking_id (orders db')))"
proof -
  from assms have eqs:
    "orders_id_seq db' = orders_id_seq db + 2"
    "o_id NEW = orders_id_seq db + 1"
    "o_tracking_id NEW =
       ''SEO-'' @ to_char_YYYYMMDD now @ ''-'' @
       lpad (text_of_nat (orders_id_seq db + 2)) 4 CHR ''0''"
    "orders db' = orders db @ [NEW]"
    "o_tracking_id NEW \<notin> set (map o_tracking_id (orders db))"
    by (auto simp: insert_order_def nextval_orders_id_seq_def generate_tracking_id_def Let_def
        split: option.splits if_splits)
  show ?thesis
    using eqs lpad_zero_pad [of "orders_id_seq db + 2"] to_char_length [of now]
      lpad_digits [of "orders_id_seq db + 2"]
    by (simp add: lpad_length)
qed

theorem insert_order_tracking_id_witness:
  "insert_order feb1 order1 450 db0 =
     (Some order2, db0\<lparr>orders_id_seq := 4, orders := [order1, order2]\<rparr>) \<and>
   orders_id_seq db0 = 2 \<and> o_id order2 = 3 \<and>
   o_tracking_id order2 = ''SEO-20250201-0004'' \<and>
   lpad (text_of_nat 4) 4 CHR ''0'' = ''0004'' \<and> zero_pad 4 4 = ''0004'' \<and>
   year feb1 < 10000 \<and> month feb1 < 100 \<and> day feb1 < 100 \<and>
   length (to_char_YYYYMMDD feb1) = 8 \<and>
   o_tracking_id order2 \<notin> set (map o_tracking_id (orders db0)) \<and>
   distinct (map o_tracking_id (orders db0)) \<and>
   distinct (map o_tracking_id [order1, order2])"
proof -
  note inst = insert_order_tracking_id [OF insert_order_feb1]
  have a: "orders_id_seq db0 = 2" "distinct (map o_tracking_id (orders db0))"
    by (simp_all add: db0_def)
  have b: "year feb1 < 10000 \<and> month feb1 < 100 \<and> day feb1 < 100" by (simp add: feb1_def)
  have c: "o_id order2 = 3" "o_tracking_id order2 = ''SEO-20250201-0004''"
    by (simp_all add: order2_def)
  have d: "lpad (text_of_nat 4) 4 CHR ''0'' = ''0004''" "zero_pad 4 4 = ''0004''"
    by (simp_all add: lpad_def zero_pad_def text_of_nat_4 replicate_small)
  have e1: "length (to_char_YYYYMMDD feb1) = 8" using inst b by blast
  have e2: "o_tracking_id order2 \<notin> set (map o_tracking_id (orders db0))"
    using inst by blast
  have "distinct (map o_tracking_id
          (orders (db0\<lparr>orders_id_seq := 4, orders := [order1, order2]\<rparr>)))"
    using inst a(2) by blast
  then have e3: "distinct (map o_tracking_id [order1, order2])" by simp
  show ?thesis
    by (intro conjI insert_order_feb1 a b [THEN conjunct1] b [THEN conjunct2, THEN conjunct1]
        b [THEN conjunct2, THEN conjunct2] c d e1 e2 e3)
qed

section \<open>Properties of POST /create\<close>

text \<open>
  C7, as the spec states it, fails: the handler computes the total as a binary64 product,
  not in fixed-point decimal arithmetic, and the product carries a rounding error. For a
  tier priced 99.99 and quantity 3, \<open>totalAmount\<close> is \<open>299.96999999999997\<close>: neither
  299.97 nor the double nearest to 299.97.
\<close>

theorem total_amount_rounding_counterexample:
  "total_amount 9999 3 = 5277128047743467 / 17592186044416 \<and>
   total_amount 9999 3 \<noteq> 29997 / 100 \<and>
   total_amount 9999 3 \<noteq> parseFloat 29997"
  by (simp add: total_amount_9999_3 parseFloat_29997)

text \<open>
  C7, amended. For a request that passes the validators of the route (so the quantity
  is from 1 to 100, 1 when it is missing, and the service id is written as an integer),
  a tier that the handler's catalog query finds for it, a price and a product within the
  range of \<open>DECIMAL(10,2)\<close>, texts that their columns admit (no NUL character, an email
  of at most 255 and a website of at most 500 characters), sequences below their maximum
  and an \<open>INSERT\<close> that the key constraints accept, \<open>POST /create\<close> commits one new
  order row whose total equals unit price times quantity exactly (the \<open>DECIMAL(10,2)\<close>
  column rounds the binary64 product, sent as the decimal \<open>toString\<close> gives, back to the
  exact value), and which stores service name, tier name, unit price and delivery days
  as the catalog query returned them, with quantity, status \<open>pending\<close> and payment
  status \<open>pending\<close>.
\<close>

theorem create_total_exact:
  assumes "validateOrderInput v request"
    and "validateOrderCreation v request = Some req"
    and "select_service_tier db (rq_serviceId req) = Some ((serviceTier, service_name) # rest)"
    and "qty = (case rq_quantity req of None \<Rightarrow> 1 | Some q \<Rightarrow> q)"
    and "\<bar>st_price serviceTier\<bar> < 10 ^ 10"
    and "\<bar>st_price serviceTier * qty\<bar> < 10 ^ 10"
    and "reads_back toString (total_amount (st_price serviceTier) qty)"
    and "pg_text (rq_customerEmail req)" "length (rq_customerEmail req) \<le> 255"
    and "pg_text (rq_customerName req)"
    and "pg_text (rq_website req)" "length (rq_website req) \<le> 500"
    and "pg_text (rq_keywords req)"
    and "customers_id_seq db < 2147483647"
    and "customers_id_seq db + 1 \<notin> set (map c_id (customers db))"
    and "orders_id_seq db + 2 \<le> 2147483647"
    and "orders_id_seq db + 1 \<notin> set (map o_id (orders db))"
    and "''SEO-'' @ to_char_YYYYMMDD now @ ''-'' @
           lpad (text_of_nat (orders_id_seq db + 2)) 4 CHR ''0''
         \<notin> set (map o_tracking_id (orders db))"
  shows "1 \<le> qty \<and> qty \<le> 100 \<and>
         (\<exists>cid. orders (db_after (create v toString now request db)) = orders db @
           [\<lparr>o_id = orders_id_seq db + 1,
             o_tracking_id = ''SEO-'' @ to_char_YYYYMMDD now @ ''-'' @
               lpad (text_of_nat (orders_id_seq db + 2)) 4 CHR ''0'',
             o_customer_id = cid,
             o_service_tier_id = rq_serviceId req,
             o_service_name = service_name,
             o_service_tier_name = st_name serviceTier,
             o_service_price = st_price serviceTier,
             o_delivery_days = st_delivery_days serviceTier,
             o_keywords = rq_keywords req,
             o_quantity = qty,
             o_total_amount = st_price serviceTier * qty,
             o_status = Pending,
             o_payment_status = Pay_pending\<rparr>])"
proof -
  have q: "1 \<le> qty" "qty \<le> 100"
    using validateOrderCreation_Some(5) [OF assms(2)] assms(4)
    by (auto split: option.splits)
  then have "\<bar>qty\<bar> \<le> 100" by simp
  from stored_total_amount [OF assms(5) this assms(7)] assms(6)
  have stored: "numeric_10_2 (toString (total_amount (st_price serviceTier) qty)) =
                  Some (st_price serviceTier * qty)" by simp
  have name: "length (rq_customerName req) \<le> 255"
    by (rule validateOrderCreation_Some(1) [OF assms(2)])
  from customer_for_order [OF assms(8,9,10) name assms(11,12,14,15)]
  obtain found cid db1 where cust:
    "select_customer_id db (rq_customerEmail req) = Some found"
    "(case found of
        c # _ \<Rightarrow>
          (case update_customer (rq_customerName req) (rq_website req) c db of
             None \<Rightarrow> (None, db)
           | Some db' \<Rightarrow> (Some c, db'))
      | [] \<Rightarrow> insert_customer (rq_customerName req) (rq_customerEmail req) (rq_website req)
                None db) = (Some cid, db1)"
    and db1: "orders db1 = orders db" "orders_id_seq db1 = orders_id_seq db"
    by blast
  have i4: "int4 qty" using q by (simp add: int4_def)
  note ins = insert_order_success
      [where db = db1 and now = now, unfolded db1, OF _ _ stored assms(16,17,18)]
  have "orders (db_after (create v toString now request db)) = orders db @
           [\<lparr>o_id = orders_id_seq db + 1,
             o_tracking_id = ''SEO-'' @ to_char_YYYYMMDD now @ ''-'' @
               lpad (text_of_nat (orders_id_seq db + 2)) 4 CHR ''0'',
             o_customer_id = cid,
             o_service_tier_id = rq_serviceId req,
             o_service_name = service_name,
             o_service_tier_name = st_name serviceTier,
             o_service_price = st_price serviceTier,
             o_delivery_days = st_delivery_days serviceTier,
             o_keywords = rq_keywords req,
             o_quantity = qty,
             o_total_amount = st_price serviceTier * qty,
             o_status = Pending,
             o_payment_status = Pay_pending\<rparr>]"
    by (simp add: create_def assms(1,2,3) assms(4) [symmetric] cust ins assms(13) i4
        insert_status_history_def)
  with q show ?thesis by blast
qed

theorem create_total_exact_witness:
  "validateOrderInput validator0 create_req0 \<and>
   validateOrderCreation validator0 create_req0 = Some create_req0 \<and>
   select_service_tier db_9999 (rq_serviceId create_req0) =
     Some ((tier_7, ''Monthly SEO Packages'') # []) \<and>
   rq_quantity create_req0 = Some 3 \<and> st_price tier_7 = 9999 \<and>
   reads_back exact_decimal (total_amount 9999 3) \<and>
   total_amount 9999 3 \<noteq> 29997 / 100 \<and>
   (\<exists>cid. orders (db_after (create validator0 exact_decimal feb1 create_req0 db_9999)) =
      [order1,
       \<lparr>o_id = 3, o_tracking_id = ''SEO-20250201-0004'', o_customer_id = cid,
        o_service_tier_id = ''7'',
        o_service_name = ''Monthly SEO Packages'',
        o_service_tier_name = ''Standard Monthly'',
        o_service_price = 9999, o_delivery_days = 30, o_keywords = ''seo audit'',
        o_quantity = 3, o_total_amount = 29997,
        o_status = Pending, o_payment_status = Pay_pending\<rparr>])"
proof -
  have h4: "(3::int) = (case rq_quantity create_req0 of None \<Rightarrow> 1 | Some q \<Rightarrow> q)"
    by (simp add: create_req0_def)
  have h5: "\<bar>st_price tier_7\<bar> < 10 ^ 10" "\<bar>st_price tier_7 * 3\<bar> < 10 ^ 10"
    by (simp_all add: tier_7_def)
  have p: "st_price tier_7 = 9999" by (simp add: tier_7_def)
  have h7: "reads_back exact_decimal (total_amount (st_price tier_7) 3)"
    by (simp add: p reads_back_total_9999_3)
  have h8: "pg_text (rq_customerEmail create_req0)" "length (rq_customerEmail create_req0) \<le> 255"
    "pg_text (rq_customerName create_req0)"
    "pg_text (rq_website create_req0)" "length (rq_website create_req0) \<le> 500"
    "pg_text (rq_keywords create_req0)"
    by (simp_all add: create_req0_def pg_text_def)
  have h14: "customers_id_seq db_9999 < 2147483647"
    "customers_id_seq db_9999 + 1 \<notin> set (map c_id (customers db_9999))"
    "orders_id_seq db_9999 + 2 \<le> 2147483647"
    "orders_id_seq db_9999 + 1 \<notin> set (map o_id (orders db_9999))"
    by (simp_all add: db_9999_def db0_def order1_def john_def)
  have h18: "''SEO-'' @ to_char_YYYYMMDD feb1 @ ''-'' @
           lpad (text_of_nat (orders_id_seq db_9999 + 2)) 4 CHR ''0''
         \<notin> set (map o_tracking_id (orders db_9999))"
    by (simp add: db_9999_def db0_def order1_def to_char_feb1)
  from create_total_exact
    [OF validate_create_req0 select_tier_db_9999 h4 h5 h7 h8 h14 h18]
  have "\<exists>cid. orders (db_after (create validator0 exact_decimal feb1 create_req0 db_9999)) =
      [order1,
       \<lparr>o_id = 3, o_tracking_id = ''SEO-20250201-0004'', o_customer_id = cid,
        o_service_tier_id = ''7'',
        o_service_name = ''Monthly SEO Packages'',
        o_service_tier_name = ''Standard Monthly'',
        o_service_price = 9999, o_delivery_days = 30, o_keywords = ''seo audit'',
        o_quantity = 3, o_total_amount = 29997,
        o_status = Pending, o_payment_status = Pay_pending\<rparr>]"
    by (simp add: db_9999_def db0_def to_char_feb1 lpad_def text_of_nat_4 replicate_small
        create_req0_def tier_7_def standard_monthly_def)
  moreover have "rq_quantity create_req0 = Some 3" by (simp add: create_req0_def)
  moreover have "total_amount 9999 3 \<noteq> 29997 / 100" by (simp add: total_amount_9999_3)
  ultimately show ?thesis
    using validate_create_req0 select_tier_db_9999 reads_back_total_9999_3 p by blast
qed

section \<open>Connections held after a response\<close>

text \<open>
  C8 fails on the code: \<open>POST /test-order\<close> and \<open>POST /create-payment-intent\<close> call
  \<open>beginTransaction\<close> first and return from their validation branches without
  \<open>commitTransaction\<close> or \<open>rollbackTransaction\<close>, so the client stays checked out. The
  branch for an unknown tier in the same handlers rolls back before it returns.
\<close>

theorem validation_returns_hold_client:
  "test_order toString now \<lparr>cart = None, customer_in = cu\<rparr> db =
     \<lparr>response = Response 400 ''Cart is required and must contain at least one item'',
      db_after = db, client_held = True\<rparr> \<and>
   test_order toString now \<lparr>cart = Some [item], customer_in = None\<rparr> db =
     \<lparr>response = Response 400 ''Customer name, email, and website are required'',
      db_after = db, client_held = True\<rparr> \<and>
   create_payment_intent createPaymentIntent \<lparr>cart = None, customer_in = cu\<rparr> db =
     \<lparr>response = Response 400 ''Cart is required and must contain at least one item'',
      db_after = db, client_held = True\<rparr>"
  by (simp add: test_order_def create_payment_intent_def)

end
